theory Spec2Isabelle
  imports Main "HOL-Library.Word" "HOL-Library.Signed_Division" "HOL-Library.Monad_Syntax"
begin

section \<open>Identifiers and errors\<close>

text \<open>
  \<open>frame_id_t\<close> and \<open>page_id_t\<close> are 32-bit signed integers in the source
  (\<open>common/config.h\<close>); they are only compared and stored, never added to, so they are
  modelled as \<open>int\<close>. Every \<open>size_t\<close> quantity that is a list length or is bounded by one
  (\<open>replacer_size_\<close>, \<open>mru_target_size_\<close>) is a \<open>nat\<close>; the counters that are decremented
  (\<open>curr_size_\<close>, \<open>pin_count_\<close>) are 64-bit words, so that a decrement at zero wraps as it
  does in the source.
\<close>

type_synonym frame_id_t = int
type_synonym page_id_t = int

text \<open>
  Modelled from the spec: \<open>common/config.h\<close> is not among the sources; the spec only
  says that \<open>INVALID\<close> is distinguished from every valid id, and valid ids are non-negative.
  The value \<open>-1\<close> is the one BusTub uses for both constants.
\<close>

definition INVALID_FRAME_ID :: frame_id_t where
  "INVALID_FRAME_ID = -1"

definition INVALID_PAGE_ID :: page_id_t where
  "INVALID_PAGE_ID = -1"

datatype error =
    Invalid_argument    \<comment> \<open>\<open>std::invalid_argument\<close>: frame id out of range\<close>
  | Runtime_error       \<comment> \<open>\<open>std::runtime_error\<close>: removing a non-evictable frame\<close>
  | Disk_exception      \<comment> \<open>an exception rethrown by \<open>future.get()\<close>\<close>
  | Would_block         \<comment> \<open>a latch that is held: the calling thread would wait\<close>

section \<open>The ARC replacer (\<open>buffer/arc_replacer.cpp\<close>)\<close>

datatype ArcStatus = MRU | MFU | MRU_GHOST | MFU_GHOST

record FrameStatus =
  page_id :: page_id_t
  frame_id :: frame_id_t
  evictable :: bool
  arc_status :: ArcStatus

text \<open>
  The four \<open>std::list\<close>s are HOL lists with the front of the list first. Each list comes
  with an \<open>unordered_map\<close> from key to list iterator. An iterator is stored only by the
  \<open>push_front\<close> of its key, so it always designates the front-most node that holds the
  key, and every node removal (\<open>erase\<close> through the iterator, \<open>pop_back\<close>) erases the
  map entry of the removed key in the same step. The iterator maps are therefore modelled by
  their key sets, and \<open>list.erase(iter)\<close> by \<open>remove1\<close>, which removes the front-most
  occurrence.
\<close>

record ArcReplacer =
  mru :: "frame_id_t list"
  mfu :: "frame_id_t list"
  mru_ghost :: "page_id_t list"
  mfu_ghost :: "page_id_t list"
  alive_map :: "frame_id_t \<rightharpoonup> FrameStatus"
  ghost_map :: "page_id_t \<rightharpoonup> FrameStatus"
  mru_iter_map :: "frame_id_t set"
  mfu_iter_map :: "frame_id_t set"
  mru_ghost_iter_map :: "page_id_t set"
  mfu_ghost_iter_map :: "page_id_t set"
  curr_size :: "64 word"
  mru_target_size :: nat
  replacer_size :: nat

definition ArcReplacer_new :: "nat \<Rightarrow> ArcReplacer" where
  "ArcReplacer_new num_frames =
     \<lparr> mru = [], mfu = [], mru_ghost = [], mfu_ghost = [],
       alive_map = Map.empty, ghost_map = Map.empty,
       mru_iter_map = {}, mfu_iter_map = {},
       mru_ghost_iter_map = {}, mfu_ghost_iter_map = {},
       curr_size = 0, mru_target_size = 0, replacer_size = num_frames \<rparr>"

definition RemoveFromAliveList :: "frame_id_t \<Rightarrow> ArcStatus \<Rightarrow> ArcReplacer \<Rightarrow> ArcReplacer" where
  "RemoveFromAliveList f status r =
     (if status = MRU then
        (if f \<in> mru_iter_map r
         then r\<lparr> mru := remove1 f (mru r), mru_iter_map := mru_iter_map r - {f} \<rparr>
         else r)
      else if status = MFU then
        (if f \<in> mfu_iter_map r
         then r\<lparr> mfu := remove1 f (mfu r), mfu_iter_map := mfu_iter_map r - {f} \<rparr>
         else r)
      else r)"

definition RemoveFromGhostList :: "page_id_t \<Rightarrow> ArcStatus \<Rightarrow> ArcReplacer \<Rightarrow> ArcReplacer" where
  "RemoveFromGhostList p status r =
     (let r1 =
        (if status = MRU_GHOST then
           (if p \<in> mru_ghost_iter_map r
            then r\<lparr> mru_ghost := remove1 p (mru_ghost r),
                    mru_ghost_iter_map := mru_ghost_iter_map r - {p} \<rparr>
            else r)
         else if status = MFU_GHOST then
           (if p \<in> mfu_ghost_iter_map r
            then r\<lparr> mfu_ghost := remove1 p (mfu_ghost r),
                    mfu_ghost_iter_map := mfu_ghost_iter_map r - {p} \<rparr>
            else r)
         else r)
      in r1\<lparr> ghost_map := (ghost_map r1)(p := None) \<rparr>)"

subsection \<open>Evict\<close>

text \<open>
  One reverse scan of a live list (\<open>rbegin\<close> to \<open>rend\<close>): the first frame, from the back,
  that has an entry in \<open>alive_map_\<close> with \<open>evictable_\<close> set.
\<close>

fun first_evictable :: "(frame_id_t \<rightharpoonup> FrameStatus) \<Rightarrow> frame_id_t list \<Rightarrow> frame_id_t option" where
  "first_evictable am [] = None"
| "first_evictable am (f # fs) =
     (case am f of
        Some st \<Rightarrow> if evictable st then Some f else first_evictable am fs
      | None \<Rightarrow> first_evictable am fs)"

text \<open>
  The body of one \<open>for\<close> loop of \<open>Evict\<close>: on a hit, \<open>victim\<close> and \<open>victim_status\<close> are
  assigned and the frame leaves its list; otherwise nothing changes.
\<close>

definition scan_side ::
  "ArcStatus \<Rightarrow> frame_id_t \<times> ArcStatus \<times> ArcReplacer \<Rightarrow> frame_id_t \<times> ArcStatus \<times> ArcReplacer" where
  "scan_side side = (\<lambda>(victim, victim_status, r).
     (case first_evictable (alive_map r) (rev (if side = MRU then mru r else mfu r)) of
        Some f \<Rightarrow> (f, side, RemoveFromAliveList f side r)
      | None \<Rightarrow> (victim, victim_status, r)))"

definition select_victim :: "ArcReplacer \<Rightarrow> frame_id_t \<times> ArcStatus \<times> ArcReplacer" where
  "select_victim r =
     (let init = (INVALID_FRAME_ID, MRU, r) in
      if length (mru r) \<ge> mru_target_size r then
        (let s1 = scan_side MRU init in
         if fst s1 = INVALID_FRAME_ID then scan_side MFU s1 else s1)
      else
        (let s1 = scan_side MFU init in
         if fst s1 = INVALID_FRAME_ID then scan_side MRU s1 else s1))"

text \<open>
  After the scans, \<open>alive_map_[victim]\<close> is read. The scan returns only frames that have
  an entry (lemma \<open>first_evictable_Some\<close> below), so the \<open>None\<close> branch of the lookup is
  never taken; it is written as a return without a victim.
\<close>

definition Evict :: "ArcReplacer \<Rightarrow> frame_id_t option \<times> ArcReplacer" where
  "Evict r =
     (case select_victim r of (victim, victim_status, r1) \<Rightarrow>
        if victim = INVALID_FRAME_ID then (None, r1)
        else
          (case alive_map r1 victim of
             None \<Rightarrow> (None, r1)
           | Some status \<Rightarrow>
              (let p = page_id status;
                   r2 = (if victim_status = MRU then
                           r1\<lparr> mru_ghost := p # mru_ghost r1,
                                mru_ghost_iter_map := insert p (mru_ghost_iter_map r1),
                                ghost_map := (ghost_map r1)(p \<mapsto>
                                  \<lparr> page_id = p, frame_id = victim, evictable = False,
                                    arc_status = MRU_GHOST \<rparr>) \<rparr>
                         else
                           r1\<lparr> mfu_ghost := p # mfu_ghost r1,
                                mfu_ghost_iter_map := insert p (mfu_ghost_iter_map r1),
                                ghost_map := (ghost_map r1)(p \<mapsto>
                                  \<lparr> page_id = p, frame_id = victim, evictable = False,
                                    arc_status = MFU_GHOST \<rparr>) \<rparr>)
               in (Some victim,
                   r2\<lparr> alive_map := (alive_map r2)(victim := None),
                        curr_size := curr_size r2 - 1 \<rparr>))))"

subsection \<open>RecordAccess\<close>

text \<open>Case 1: the frame is in \<open>alive_map_\<close>; it moves to the front of \<open>mfu_\<close>.\<close>

definition access_alive :: "frame_id_t \<Rightarrow> FrameStatus \<Rightarrow> ArcReplacer \<Rightarrow> ArcReplacer" where
  "access_alive f status r =
     (let r1 = RemoveFromAliveList f (arc_status status) r
      in r1\<lparr> mfu := f # mfu r1,
              mfu_iter_map := insert f (mfu_iter_map r1),
              alive_map := (alive_map r1)(f \<mapsto> status\<lparr> arc_status := MFU \<rparr>) \<rparr>)"

text \<open>
  Case 2: \<open>ghost_map_\<close> has the page with status \<open>MRU_GHOST\<close>. The ghost entry is removed
  first; the two sizes are read after the removal.
\<close>

definition access_mru_ghost :: "frame_id_t \<Rightarrow> page_id_t \<Rightarrow> ArcReplacer \<Rightarrow> ArcReplacer" where
  "access_mru_ghost f p r =
     (let r1 = RemoveFromGhostList p MRU_GHOST r;
          mru_ghost_size = length (mru_ghost r1);
          mfu_ghost_size = length (mfu_ghost r1);
          target =
            (if mru_ghost_size \<ge> mfu_ghost_size
             then min (mru_target_size r1 + 1) (replacer_size r1)
             else (let add = mfu_ghost_size div max mru_ghost_size 1
                   in min (mru_target_size r1 + add) (replacer_size r1)))
      in r1\<lparr> mru_target_size := target,
              mfu := f # mfu r1,
              mfu_iter_map := insert f (mfu_iter_map r1),
              alive_map := (alive_map r1)(f \<mapsto>
                \<lparr> page_id = p, frame_id = f, evictable = False, arc_status = MFU \<rparr>) \<rparr>)"

text \<open>Case 3: \<open>ghost_map_\<close> has the page with status \<open>MFU_GHOST\<close>.\<close>

definition access_mfu_ghost :: "frame_id_t \<Rightarrow> page_id_t \<Rightarrow> ArcReplacer \<Rightarrow> ArcReplacer" where
  "access_mfu_ghost f p r =
     (let r1 = RemoveFromGhostList p MFU_GHOST r;
          mru_ghost_size = length (mru_ghost r1);
          mfu_ghost_size = length (mfu_ghost r1);
          target =
            (if mfu_ghost_size \<ge> mru_ghost_size
             then (if mru_target_size r1 > 0 then mru_target_size r1 - 1 else 0)
             else (let decrease = mru_ghost_size div max mfu_ghost_size 1
                   in if decrease < mru_target_size r1
                      then mru_target_size r1 - decrease else 0))
      in r1\<lparr> mru_target_size := target,
              mfu := f # mfu r1,
              mfu_iter_map := insert f (mfu_iter_map r1),
              alive_map := (alive_map r1)(f \<mapsto>
                \<lparr> page_id = p, frame_id = f, evictable = False, arc_status = MFU \<rparr>) \<rparr>)"

text \<open>Case 4: no list is hit. One ghost may be dropped, then the frame enters \<open>mru_\<close>.\<close>

definition access_miss :: "frame_id_t \<Rightarrow> page_id_t \<Rightarrow> ArcReplacer \<Rightarrow> ArcReplacer" where
  "access_miss f p r =
     (let mru_total = length (mru r) + length (mru_ghost r);
          total_all = mru_total + length (mfu r) + length (mfu_ghost r);
          r1 =
            (if mru_total = replacer_size r then
               (if mru_ghost r \<noteq> [] then
                  (let old_page = last (mru_ghost r)
                   in r\<lparr> mru_ghost := butlast (mru_ghost r),
                           mru_ghost_iter_map := mru_ghost_iter_map r - {old_page},
                           ghost_map := (ghost_map r)(old_page := None) \<rparr>)
                else r)
             else if total_all \<ge> 2 * replacer_size r then
               (if mfu_ghost r \<noteq> [] then
                  (let old_page = last (mfu_ghost r)
                   in r\<lparr> mfu_ghost := butlast (mfu_ghost r),
                           mfu_ghost_iter_map := mfu_ghost_iter_map r - {old_page},
                           ghost_map := (ghost_map r)(old_page := None) \<rparr>)
                else r)
             else r)
      in r1\<lparr> mru := f # mru r1,
              mru_iter_map := insert f (mru_iter_map r1),
              alive_map := (alive_map r1)(f \<mapsto>
                \<lparr> page_id = p, frame_id = f, evictable = False, arc_status = MRU \<rparr>) \<rparr>)"

definition ghost_status :: "ArcReplacer \<Rightarrow> page_id_t \<Rightarrow> ArcStatus option" where
  "ghost_status r p = map_option arc_status (ghost_map r p)"

text \<open>
  The range check is the source's \<open>frame_id < 0 || static_cast<size_t>(frame_id) >
  replacer_size_\<close>. An exception is thrown before any member is assigned, so the error
  result carries no state: the replacer is as the caller passed it.
\<close>

definition frame_id_invalid :: "ArcReplacer \<Rightarrow> frame_id_t \<Rightarrow> bool" where
  "frame_id_invalid r f \<longleftrightarrow> f < 0 \<or> nat f > replacer_size r"

definition RecordAccess :: "frame_id_t \<Rightarrow> page_id_t \<Rightarrow> ArcReplacer \<Rightarrow> error + ArcReplacer" where
  "RecordAccess f p r =
     (if frame_id_invalid r f then Inl Invalid_argument
      else
        (case alive_map r f of
           Some status \<Rightarrow> Inr (access_alive f status r)
         | None \<Rightarrow>
            if ghost_status r p = Some MRU_GHOST then Inr (access_mru_ghost f p r)
            else if ghost_status r p = Some MFU_GHOST then Inr (access_mfu_ghost f p r)
            else Inr (access_miss f p r)))"

subsection \<open>SetEvictable, Remove, Size\<close>

definition SetEvictable :: "frame_id_t \<Rightarrow> bool \<Rightarrow> ArcReplacer \<Rightarrow> error + ArcReplacer" where
  "SetEvictable f set_evictable r =
     (if frame_id_invalid r f then Inl Invalid_argument
      else
        (case alive_map r f of
           Some status \<Rightarrow>
             if evictable status \<noteq> set_evictable then
               Inr (r\<lparr> alive_map := (alive_map r)(f \<mapsto> status\<lparr> evictable := set_evictable \<rparr>),
                        curr_size := (if set_evictable then curr_size r + 1 else curr_size r - 1) \<rparr>)
             else Inr r
         | None \<Rightarrow> Inr r))"

text \<open>
  \<open>Remove\<close> stores the live \<open>FrameStatus\<close> object itself in \<open>ghost_map_\<close>, with the
  status (\<open>MRU\<close> or \<open>MFU\<close>) it had while alive.
\<close>

definition Remove :: "frame_id_t \<Rightarrow> ArcReplacer \<Rightarrow> error + ArcReplacer" where
  "Remove f r =
     (if frame_id_invalid r f then Inl Invalid_argument
      else
        (case alive_map r f of
           None \<Rightarrow> Inr r
         | Some status \<Rightarrow>
             if \<not> evictable status then Inl Runtime_error
             else
               (let r1 = RemoveFromAliveList f (arc_status status) r;
                    p = page_id status;
                    r2 = (if arc_status status = MRU then
                            r1\<lparr> mru_ghost := p # mru_ghost r1,
                                 mru_ghost_iter_map := insert p (mru_ghost_iter_map r1) \<rparr>
                          else
                            r1\<lparr> mfu_ghost := p # mfu_ghost r1,
                                 mfu_ghost_iter_map := insert p (mfu_ghost_iter_map r1) \<rparr>)
                in Inr (r2\<lparr> ghost_map := (ghost_map r2)(p \<mapsto> status),
                            alive_map := (alive_map r2)(f := None),
                            curr_size := curr_size r2 - 1 \<rparr>))))"

definition Size :: "ArcReplacer \<Rightarrow> 64 word" where
  "Size r = curr_size r"

subsection \<open>Sequences of replacer calls\<close>

text \<open>
  A client of the replacer issues calls one after the other. A call that throws leaves the
  replacer as it was (the throw precedes every assignment), and the client goes on.
\<close>

datatype replacer_op =
    Op_RecordAccess frame_id_t page_id_t
  | Op_Evict
  | Op_SetEvictable frame_id_t bool
  | Op_Remove frame_id_t

fun apply_op :: "replacer_op \<Rightarrow> ArcReplacer \<Rightarrow> ArcReplacer" where
  "apply_op (Op_RecordAccess f p) r = (case RecordAccess f p r of Inl e \<Rightarrow> r | Inr r' \<Rightarrow> r')"
| "apply_op Op_Evict r = snd (Evict r)"
| "apply_op (Op_SetEvictable f b) r = (case SetEvictable f b r of Inl e \<Rightarrow> r | Inr r' \<Rightarrow> r')"
| "apply_op (Op_Remove f) r = (case Remove f r of Inl e \<Rightarrow> r | Inr r' \<Rightarrow> r')"

definition run_ops :: "replacer_op list \<Rightarrow> ArcReplacer \<Rightarrow> ArcReplacer" where
  "run_ops ops r = fold apply_op ops r"

text \<open>
  A run on a replacer of capacity 4 with four pages in four frames: pages 12 and 13 are
  accessed twice, then all four frames are made evictable and evicted. It ends with
  \<open>mru_ghost_ = [11, 10]\<close>, \<open>mfu_ghost_ = [13, 12]\<close> and target 0.
\<close>

definition ghost_hit_trace :: "replacer_op list" where
  "ghost_hit_trace =
     [Op_RecordAccess 0 10, Op_RecordAccess 1 11, Op_RecordAccess 2 12, Op_RecordAccess 3 13,
      Op_RecordAccess 2 12, Op_RecordAccess 3 13,
      Op_SetEvictable 0 True, Op_SetEvictable 1 True,
      Op_SetEvictable 2 True, Op_SetEvictable 3 True,
      Op_Evict, Op_Evict, Op_Evict, Op_Evict]"

subsection \<open>The invariant of the replacer\<close>







section \<open>Frames, the disk scheduler and the buffer pool (\<open>buffer/buffer_pool_manager.cpp\<close>)\<close>

text \<open>
  The operations are modelled as one thread runs them. The pool latch \<open>bpm_latch_\<close> is
  taken and released inside every operation and is left out. A frame's
  \<open>std::shared_mutex\<close> is kept, since guards hold it between operations: it has a number
  of shared holders and an exclusive-holder flag, and an acquisition that would make the
  thread wait ends the operation with \<open>Would_block\<close>.
\<close>

record RWLatch =
  readers :: nat
  writer :: bool

definition lock_shared :: "RWLatch \<Rightarrow> error + RWLatch" where
  "lock_shared l = (if writer l then Inl Would_block else Inr (l\<lparr> readers := Suc (readers l) \<rparr>))"

definition unlock_shared :: "RWLatch \<Rightarrow> RWLatch" where
  "unlock_shared l = l\<lparr> readers := readers l - 1 \<rparr>"

definition lock_exclusive :: "RWLatch \<Rightarrow> error + RWLatch" where
  "lock_exclusive l =
     (if writer l \<or> readers l > 0 then Inl Would_block else Inr (l\<lparr> writer := True \<rparr>))"

definition unlock :: "RWLatch \<Rightarrow> RWLatch" where
  "unlock l = l\<lparr> writer := False \<rparr>"

text \<open>
  A frame's buffer \<open>data_\<close> is a function from byte offset to byte. \<open>pin_count_\<close> is a
  \<open>std::atomic<size_t>\<close>.
\<close>

record FrameHeader =
  fh_frame_id :: frame_id_t
  rwlatch :: RWLatch
  pin_count :: "64 word"
  is_dirty :: bool
  data :: "nat \<Rightarrow> 8 word"

definition Reset :: "FrameHeader \<Rightarrow> FrameHeader" where
  "Reset fh = fh\<lparr> data := (\<lambda>i. 0), pin_count := 0, is_dirty := False \<rparr>"

definition FrameHeader_new :: "frame_id_t \<Rightarrow> FrameHeader" where
  "FrameHeader_new f =
     Reset \<lparr> fh_frame_id = f, rwlatch = \<lparr> readers = 0, writer = False \<rparr>,
             pin_count = 0, is_dirty = False, data = (\<lambda>i. 0) \<rparr>"

text \<open>
  A \<open>DiskRequest\<close> points to a frame's buffer (\<open>data_\<close>, here the frame's id) and carries
  a \<open>std::promise<bool>\<close>. \<open>DiskScheduler::Schedule\<close> moves every request out of the
  caller's vector into a queue (\<open>Put(std::move(req))\<close>), which leaves the promises in the
  vector without a shared state. The worker thread fulfils a request with
  \<open>set_value(true)\<close>, or with \<open>set_exception\<close> when the disk manager throws; what the
  future of a request yields is an input of the operation that waits for it (\<open>io_result\<close>).
\<close>

datatype promise = Shared_state | No_state

record DiskRequest =
  is_write :: bool
  req_frame :: frame_id_t
  req_page_id :: page_id_t
  callback :: promise

datatype io_result = Value bool | Raised

record BufferPoolManager =
  num_frames :: nat
  bpm_next_page_id :: page_id_t
  frames :: "frame_id_t \<Rightarrow> FrameHeader"
  page_table :: "page_id_t \<rightharpoonup> frame_id_t"
  frame_table :: "frame_id_t \<rightharpoonup> page_id_t"
  free_frames :: "frame_id_t list"
  replacer :: ArcReplacer
  disk_queue :: "DiskRequest list"
  deallocated :: "page_id_t list"

text \<open>
  The vector \<open>frames_\<close> holds the frames \<open>0, \<dots>, N - 1\<close>; every frame id the pool uses
  comes from the free list, the page table or the replacer.
\<close>

definition BufferPoolManager_new :: "nat \<Rightarrow> BufferPoolManager" where
  "BufferPoolManager_new n =
     \<lparr> num_frames = n, bpm_next_page_id = 0, frames = FrameHeader_new,
       page_table = Map.empty, frame_table = Map.empty,
       free_frames = map int [0..<n],
       replacer = ArcReplacer_new n,
       disk_queue = [], deallocated = [] \<rparr>"

definition Schedule :: "DiskRequest list \<Rightarrow> BufferPoolManager \<Rightarrow> DiskRequest list \<times> BufferPoolManager" where
  "Schedule requests b =
     (map (\<lambda>req. req\<lparr> callback := No_state \<rparr>) requests,
      b\<lparr> disk_queue := disk_queue b @ requests \<rparr>)"

definition DeallocatePage :: "page_id_t \<Rightarrow> BufferPoolManager \<Rightarrow> BufferPoolManager" where
  "DeallocatePage p b = b\<lparr> deallocated := deallocated b @ [p] \<rparr>"

definition set_dirty :: "frame_id_t \<Rightarrow> bool \<Rightarrow> BufferPoolManager \<Rightarrow> BufferPoolManager" where
  "set_dirty f d b = b\<lparr> frames := (frames b)(f := (frames b f)\<lparr> is_dirty := d \<rparr>) \<rparr>"

text \<open>\<open>frame_table_[frame_id]\<close>: \<open>operator[]\<close> inserts the value 0 for a missing key.\<close>

definition frame_table_index :: "frame_id_t \<Rightarrow> BufferPoolManager \<Rightarrow> page_id_t \<times> BufferPoolManager" where
  "frame_table_index f b =
     (case frame_table b f of
        Some p \<Rightarrow> (p, b)
      | None \<Rightarrow> (0, b\<lparr> frame_table := (frame_table b)(f \<mapsto> 0) \<rparr>))"

definition FlushPageUnsafe :: "page_id_t \<Rightarrow> io_result \<Rightarrow> BufferPoolManager \<Rightarrow> bool \<times> BufferPoolManager" where
  "FlushPageUnsafe p io b =
     (case page_table b p of
        None \<Rightarrow> (False, b)
      | Some f \<Rightarrow>
          (let b1 = snd (Schedule [\<lparr> is_write = True, req_frame = f, req_page_id = p,
                                     callback = Shared_state \<rparr>] b)
           in case io of
                Value success \<Rightarrow> (success, if success then set_dirty f False b1 else b1)
              | Raised \<Rightarrow> (False, b1)))"

text \<open>
  The block shared by \<open>NewPage\<close>, \<open>CheckedWritePage\<close> and \<open>CheckedReadPage\<close>: take the
  front of the free list, else evict. The victim's latch is taken for the flush
  (\<open>scoped_lock\<close> in the first two, \<open>lock_shared\<close> in \<open>CheckedReadPage\<close>) and released
  again; then the victim's mappings are erased.
\<close>

definition obtain_frame ::
  "bool \<Rightarrow> io_result \<Rightarrow> BufferPoolManager \<Rightarrow> (error + frame_id_t option) \<times> BufferPoolManager" where
  "obtain_frame shared flush_io b =
     (case free_frames b of
        f # rest \<Rightarrow> (Inr (Some f), b\<lparr> free_frames := rest \<rparr>)
      | [] \<Rightarrow>
         (case Evict (replacer b) of
            (None, rep) \<Rightarrow> (Inr None, b\<lparr> replacer := rep \<rparr>)
          | (Some f, rep) \<Rightarrow>
             (let b1 = b\<lparr> replacer := rep \<rparr>;
                  l = rwlatch (frames b1 f)
              in if (if shared then lock_shared l else lock_exclusive l) = Inl Would_block
                 then (Inl Would_block, b1)
                 else
                   (let b2 = (if is_dirty (frames b1 f) then
                                (case frame_table_index f b1 of (old_page_id, b') \<Rightarrow>
                                   set_dirty f False (snd (FlushPageUnsafe old_page_id flush_io b')))
                              else b1)
                    in case frame_table_index f b2 of (old_page_id, b3) \<Rightarrow>
                         (Inr (Some f),
                          b3\<lparr> page_table := (page_table b3)(old_page_id := None),
                               frame_table := (frame_table b3)(f := None) \<rparr>)))))"

definition NewPage ::
  "io_result \<Rightarrow> io_result \<Rightarrow> BufferPoolManager \<Rightarrow> (error + page_id_t) \<times> BufferPoolManager" where
  "NewPage flush_io write_io b =
     (case obtain_frame False flush_io b of
        (Inl e, b1) \<Rightarrow> (Inl e, b1)
      | (Inr None, b1) \<Rightarrow> (Inr INVALID_PAGE_ID, b1)
      | (Inr (Some f), b1) \<Rightarrow>
         (let new_page_id = bpm_next_page_id b1;
              b2 = b1\<lparr> bpm_next_page_id := new_page_id + 1 \<rparr>
          in if lock_exclusive (rwlatch (frames b2 f)) = Inl Would_block
             then (Inl Would_block, b2)
             else
               (let b3 = b2\<lparr> frames := (frames b2)(f := Reset (frames b2 f)),
                              page_table := (page_table b2)(new_page_id \<mapsto> f),
                              frame_table := (frame_table b2)(f \<mapsto> new_page_id) \<rparr>;
                    b4 = snd (Schedule [\<lparr> is_write = True, req_frame = f,
                                           req_page_id = new_page_id,
                                           callback = Shared_state \<rparr>] b3)
                in case write_io of
                     Raised \<Rightarrow> (Inl Disk_exception, b4)
                   | Value success \<Rightarrow>
                       if success then (Inr new_page_id, b4)
                       else (Inr INVALID_PAGE_ID,
                             b4\<lparr> page_table := (page_table b4)(new_page_id := None),
                                  frame_table := (frame_table b4)(f := None),
                                  free_frames := free_frames b4 @ [f] \<rparr>))))"

definition DeletePage :: "page_id_t \<Rightarrow> io_result \<Rightarrow> BufferPoolManager \<Rightarrow> bool \<times> BufferPoolManager" where
  "DeletePage p flush_io b =
     (case page_table b p of
        None \<Rightarrow> (True, DeallocatePage p b)
      | Some f \<Rightarrow>
          if pin_count (frames b f) > 0 then (False, b)
          else
            (let b1 = (if is_dirty (frames b f)
                       then set_dirty f False (snd (FlushPageUnsafe p flush_io b))
                       else b);
                 b2 = b1\<lparr> page_table := (page_table b1)(p := None),
                           frame_table := (frame_table b1)(f := None),
                           frames := (frames b1)(f := Reset (frames b1 f)),
                           free_frames := free_frames b1 @ [f] \<rparr>
             in (True, DeallocatePage p b2)))"

section \<open>Page guards (\<open>storage/page/page_guard.cpp\<close>)\<close>

text \<open>
  Both guard classes have the same members. \<open>frame_\<close> is a shared pointer to a frame of
  the pool, here the frame's index in \<open>frames\<close>; \<open>replacer_\<close>, \<open>bpm_latch_\<close> and
  \<open>disk_scheduler_\<close> point to the members of the pool that made the guard, so a guard
  operation takes and returns the pool.
\<close>

record PageGuard =
  guard_page_id :: page_id_t
  frame :: frame_id_t
  is_valid :: bool

datatype guard_mode = Read_guard | Write_guard

text \<open>
  The constructors: pin, take the latch in the guard's mode, mark the frame non-evictable.
  The replacer is addressed with the frame's own \<open>frame_id_\<close>.
\<close>

definition PageGuard_new ::
  "guard_mode \<Rightarrow> page_id_t \<Rightarrow> frame_id_t \<Rightarrow> BufferPoolManager \<Rightarrow> (error + PageGuard) \<times> BufferPoolManager" where
  "PageGuard_new mode p f b =
     (let fh = (frames b f)\<lparr> pin_count := pin_count (frames b f) + 1 \<rparr>;
          b1 = b\<lparr> frames := (frames b)(f := fh) \<rparr>
      in case (if mode = Read_guard then lock_shared (rwlatch fh) else lock_exclusive (rwlatch fh)) of
           Inl e \<Rightarrow> (Inl e, b1)
         | Inr l \<Rightarrow>
            (let b2 = b1\<lparr> frames := (frames b1)(f := fh\<lparr> rwlatch := l \<rparr>) \<rparr>
             in case SetEvictable (fh_frame_id fh) False (replacer b2) of
                  Inl e \<Rightarrow> (Inl e, b2)
                | Inr rep \<Rightarrow>
                    (Inr \<lparr> guard_page_id = p, frame = f, is_valid = True \<rparr>,
                     b2\<lparr> replacer := rep \<rparr>)))"

definition ReadPageGuard_new ::
  "page_id_t \<Rightarrow> frame_id_t \<Rightarrow> BufferPoolManager \<Rightarrow> (error + PageGuard) \<times> BufferPoolManager" where
  "ReadPageGuard_new = PageGuard_new Read_guard"

definition WritePageGuard_new ::
  "page_id_t \<Rightarrow> frame_id_t \<Rightarrow> BufferPoolManager \<Rightarrow> (error + PageGuard) \<times> BufferPoolManager" where
  "WritePageGuard_new = PageGuard_new Write_guard"

text \<open>
  \<open>Drop\<close>: an invalid guard returns at once. Otherwise the latch is released, the pin
  count is decremented, the frame is made evictable when the count is then zero, and the
  guard becomes invalid. \<open>SetEvictable\<close> throws for an out-of-range frame id; the
  statements before the throw have then taken effect and \<open>is_valid_\<close> has not been reset.
\<close>

definition guard_Drop ::
  "guard_mode \<Rightarrow> PageGuard \<Rightarrow> BufferPoolManager \<Rightarrow> (error + unit) \<times> PageGuard \<times> BufferPoolManager" where
  "guard_Drop mode g b =
     (if \<not> is_valid g then (Inr (), g, b)
      else
        (let fh0 = frames b (frame g);
             fh1 = fh0\<lparr> rwlatch := (if mode = Read_guard then unlock_shared (rwlatch fh0)
                                       else unlock (rwlatch fh0)) \<rparr>;
             fh2 = fh1\<lparr> pin_count := pin_count fh1 - 1 \<rparr>;
             b1 = b\<lparr> frames := (frames b)(frame g := fh2) \<rparr>
         in if pin_count fh2 = 0 then
              (case SetEvictable (fh_frame_id fh2) True (replacer b1) of
                 Inl e \<Rightarrow> (Inl e, g, b1)
               | Inr rep \<Rightarrow> (Inr (), g\<lparr> is_valid := False \<rparr>, b1\<lparr> replacer := rep \<rparr>))
            else (Inr (), g\<lparr> is_valid := False \<rparr>, b1)))"

definition ReadPageGuard_Drop ::
  "PageGuard \<Rightarrow> BufferPoolManager \<Rightarrow> (error + unit) \<times> PageGuard \<times> BufferPoolManager" where
  "ReadPageGuard_Drop = guard_Drop Read_guard"

definition WritePageGuard_Drop ::
  "PageGuard \<Rightarrow> BufferPoolManager \<Rightarrow> (error + unit) \<times> PageGuard \<times> BufferPoolManager" where
  "WritePageGuard_Drop = guard_Drop Write_guard"

text \<open>\<open>WritePageGuard::GetDataMut\<close> hands out the buffer and sets the dirty flag.\<close>

definition WritePageGuard_GetDataMut :: "PageGuard \<Rightarrow> BufferPoolManager \<Rightarrow> BufferPoolManager option" where
  "WritePageGuard_GetDataMut g b =
     (if \<not> is_valid g then None else Some (set_dirty (frame g) True b))"

text \<open>
  \<open>ReadPageGuard::Flush\<close> schedules the write and clears the flag in the next statement;
  it never waits for the request. \<open>BUSTUB_ENSURE\<close> on an invalid guard ends the process
  (\<open>None\<close>).
\<close>

definition ReadPageGuard_Flush :: "PageGuard \<Rightarrow> BufferPoolManager \<Rightarrow> BufferPoolManager option" where
  "ReadPageGuard_Flush g b =
     (if \<not> is_valid g then None
      else if is_dirty (frames b (frame g)) then
        (let b1 = snd (Schedule [\<lparr> is_write = True, req_frame = frame g,
                                   req_page_id = guard_page_id g,
                                   callback = Shared_state \<rparr>] b)
         in Some (set_dirty (frame g) False b1))
      else Some b)"

text \<open>
  \<open>WritePageGuard::Flush\<close> asks the request left in its vector for the future
  (\<open>requests[0].callback_.get_future()\<close>) after \<open>Schedule\<close> has moved the request away.
  \<open>get_future\<close> on a promise without shared state throws \<open>std::future_error\<close>, which
  the \<open>catch (...)\<close> of the function swallows; with a shared state the function waits
  for the result and clears the flag when it is \<open>true\<close>.
\<close>

definition get_future :: "promise \<Rightarrow> io_result \<Rightarrow> io_result" where
  "get_future pr io = (case pr of Shared_state \<Rightarrow> io | No_state \<Rightarrow> Raised)"

definition WritePageGuard_Flush ::
  "PageGuard \<Rightarrow> io_result \<Rightarrow> BufferPoolManager \<Rightarrow> BufferPoolManager option" where
  "WritePageGuard_Flush g io b =
     (if \<not> is_valid g then None
      else if is_dirty (frames b (frame g)) then
        (case Schedule [\<lparr> is_write = True, req_frame = frame g,
                          req_page_id = guard_page_id g,
                          callback = Shared_state \<rparr>] b of
           (requests, b1) \<Rightarrow>
             (case get_future (callback (hd requests)) io of
                Value success \<Rightarrow> Some (if success then set_dirty (frame g) False b1 else b1)
              | Raised \<Rightarrow> Some b1))
      else Some b)"

section \<open>Fetching pages (\<open>CheckedReadPage\<close>, \<open>CheckedWritePage\<close>)\<close>

text \<open>
  The two functions differ in the latch mode of the eviction path and in the guard they
  build. \<open>read_io\<close> is what the future of the read request yields and \<open>bytes\<close> what a
  fulfilled read has put into the frame's buffer. An exception out of \<open>future.get()\<close>
  leaves the function with the frame neither free nor mapped.
\<close>

definition checked_page ::
  "guard_mode \<Rightarrow> page_id_t \<Rightarrow> io_result \<Rightarrow> io_result \<Rightarrow> (nat \<Rightarrow> 8 word) \<Rightarrow> BufferPoolManager
     \<Rightarrow> (error + PageGuard option) \<times> BufferPoolManager" where
  "checked_page mode p flush_io read_io bytes b =
     (if p < 0 then (Inr None, b)
      else
        (case page_table b p of
           Some f \<Rightarrow>
             (case RecordAccess f p (replacer b) of
                Inl e \<Rightarrow> (Inl e, b)
              | Inr rep \<Rightarrow>
                  (case PageGuard_new mode p f (b\<lparr> replacer := rep \<rparr>) of
                     (Inl e, b') \<Rightarrow> (Inl e, b')
                   | (Inr g, b') \<Rightarrow> (Inr (Some g), b')))
         | None \<Rightarrow>
             (case obtain_frame (mode = Read_guard) flush_io b of
                (Inl e, b1) \<Rightarrow> (Inl e, b1)
              | (Inr None, b1) \<Rightarrow> (Inr None, b1)
              | (Inr (Some f), b1) \<Rightarrow>
                 (let b2 = snd (Schedule [\<lparr> is_write = False, req_frame = f, req_page_id = p,
                                            callback = Shared_state \<rparr>] b1)
                  in case read_io of
                       Raised \<Rightarrow> (Inl Disk_exception, b2)
                     | Value success \<Rightarrow>
                        if \<not> success
                        then (Inr None, b2\<lparr> free_frames := free_frames b2 @ [f] \<rparr>)
                        else
                          (let b3 = b2\<lparr> frames := (frames b2)(f := (frames b2 f)\<lparr> data := bytes \<rparr>),
                                         page_table := (page_table b2)(p \<mapsto> f),
                                         frame_table := (frame_table b2)(f \<mapsto> p) \<rparr>
                           in case RecordAccess f p (replacer b3) of
                                Inl e \<Rightarrow> (Inl e, b3)
                              | Inr rep \<Rightarrow>
                                 (case PageGuard_new mode p f (b3\<lparr> replacer := rep \<rparr>) of
                                    (Inl e, b') \<Rightarrow> (Inl e, b')
                                  | (Inr g, b') \<Rightarrow> (Inr (Some g), b')))))))"

definition CheckedReadPage ::
  "page_id_t \<Rightarrow> io_result \<Rightarrow> io_result \<Rightarrow> (nat \<Rightarrow> 8 word) \<Rightarrow> BufferPoolManager
     \<Rightarrow> (error + PageGuard option) \<times> BufferPoolManager" where
  "CheckedReadPage = checked_page Read_guard"

definition CheckedWritePage ::
  "page_id_t \<Rightarrow> io_result \<Rightarrow> io_result \<Rightarrow> (nat \<Rightarrow> 8 word) \<Rightarrow> BufferPoolManager
     \<Rightarrow> (error + PageGuard option) \<times> BufferPoolManager" where
  "CheckedWritePage = checked_page Write_guard"

subsection \<open>Example runs of a pool with one frame\<close>

text \<open>
  \<open>pool_after_new_page\<close>: a new pool, then \<open>NewPage()\<close>, which returns page 0 in
  frame 0. \<open>pool_with_write_guard\<close>: then \<open>CheckedWritePage(0)\<close>, a hit; the guard is
  \<open>first_guard\<close>. \<open>pool_after_write\<close>: then \<open>GetDataMut\<close> and \<open>Drop\<close> on that
  guard. \<open>pool_with_read_guard\<close>: then \<open>CheckedReadPage(0)\<close>. All disk requests are
  fulfilled.
\<close>

definition pool_after_new_page :: BufferPoolManager where
  "pool_after_new_page = snd (NewPage (Value True) (Value True) (BufferPoolManager_new 1))"

definition first_guard :: PageGuard where
  "first_guard = \<lparr> guard_page_id = 0, frame = 0, is_valid = True \<rparr>"

definition pool_with_write_guard :: BufferPoolManager where
  "pool_with_write_guard =
     snd (CheckedWritePage 0 (Value True) (Value True) (\<lambda>i. 0) pool_after_new_page)"

definition pool_after_write :: BufferPoolManager where
  "pool_after_write =
     snd (snd (WritePageGuard_Drop first_guard
       (case WritePageGuard_GetDataMut first_guard pool_with_write_guard of
          Some b \<Rightarrow> b | None \<Rightarrow> pool_with_write_guard)))"

definition pool_with_read_guard :: BufferPoolManager where
  "pool_with_read_guard =
     snd (CheckedReadPage 0 (Value True) (Value True) (\<lambda>i. 0) pool_after_write)"

section \<open>B+-tree pages (\<open>storage/page/b_plus_tree_*_page.cpp\<close>)\<close>

text \<open>
  A tree page is the content of a frame, read through one of the three page classes
  (\<open>reinterpret_cast\<close>). The record below has the members of all three views: the common
  header (\<open>page_type_\<close>, \<open>size_\<close>, \<open>max_size_\<close>), the members of a leaf
  (\<open>next_page_id_\<close>, \<open>num_tombstones_\<close>, \<open>key_array_\<close>, \<open>rid_array_\<close>), of an
  internal page (\<open>key_array_\<close>, \<open>page_id_array_\<close>) and of the header page
  (\<open>root_page_id_\<close>); the code decides by \<open>page_type_\<close> and by the page id which view it
  takes. Arrays are functions from the \<open>int\<close> index; sizes and indices are \<open>int\<close> as in
  the source, and \<open>/\<close> on \<open>int\<close> is \<open>sdiv\<close>, which truncates towards zero.

  A function returns an \<open>option\<close>: \<open>None\<close> stands for a run that ends in a failed
  \<open>assert\<close> or an out-of-range \<open>std::vector\<close> access, or that does not end.

  Modelled from the spec: \<open>b_plus_tree_header_page.h\<close> is not among the sources; the
  header page stores the root page id of the tree.
\<close>

datatype IndexPageType = INVALID_INDEX_PAGE | LEAF_PAGE | INTERNAL_PAGE

record ('k, 'v) page =
  page_type :: IndexPageType
  psize :: int
  max_size :: int
  next_page_id :: page_id_t
  num_tombstones :: nat
  key_array :: "int \<Rightarrow> 'k"
  rid_array :: "int \<Rightarrow> 'v"
  page_id_array :: "int \<Rightarrow> page_id_t"
  root_page_id :: page_id_t

definition assert_that :: "bool \<Rightarrow> unit option" where
  "assert_that c = (if c then Some () else None)"

text \<open>
  The key comparator of the instantiated trees orders the keys totally; it returns a
  negative number, zero or a positive number.
\<close>

definition comparator :: "'k::linorder \<Rightarrow> 'k \<Rightarrow> int" where
  "comparator a b = (if a < b then -1 else if a = b then 0 else 1)"

definition IsLeafPage :: "('k, 'v) page \<Rightarrow> bool" where
  "IsLeafPage p \<longleftrightarrow> page_type p = LEAF_PAGE"

definition GetSize :: "('k, 'v) page \<Rightarrow> int" where
  "GetSize p = psize p"

definition GetMaxSize :: "('k, 'v) page \<Rightarrow> int" where
  "GetMaxSize p = max_size p"

lemma sdiv_two_nonneg: "0 \<le> (a::int) \<Longrightarrow> a sdiv 2 = a div 2"
  by (simp add: signed_divide_int_def sgn_if)

subsection \<open>Leaf pages\<close>

definition Leaf_Init :: "int \<Rightarrow> ('k, 'v) page \<Rightarrow> ('k, 'v) page" where
  "Leaf_Init max_sz p =
     p\<lparr> max_size := max_sz, psize := 0, page_type := LEAF_PAGE,
        next_page_id := INVALID_PAGE_ID, num_tombstones := 0 \<rparr>"

definition Leaf_KeyAt :: "('k, 'v) page \<Rightarrow> int \<Rightarrow> 'k option" where
  "Leaf_KeyAt p index = do { assert_that (index \<ge> 0 \<and> index < GetSize p); Some (key_array p index) }"

definition Leaf_ValueAt :: "('k, 'v) page \<Rightarrow> int \<Rightarrow> 'v option" where
  "Leaf_ValueAt p index = do { assert_that (index \<ge> 0 \<and> index < GetSize p); Some (rid_array p index) }"

text \<open>The \<open>while (left <= right)\<close> loop of \<open>FindFirstGreaterOrEqual\<close>.\<close>

function first_ge_loop :: "'k::linorder \<Rightarrow> ('k, 'v) page \<Rightarrow> int \<Rightarrow> int \<Rightarrow> int \<Rightarrow> int option" where
  "first_ge_loop key p left right result =
     (if left \<le> right then
        (let mid = left + (right - left) sdiv 2 in
         do {
           mid_key \<leftarrow> Leaf_KeyAt p mid;
           if comparator mid_key key \<ge> 0
           then first_ge_loop key p left (mid - 1) mid
           else first_ge_loop key p (mid + 1) right result
         })
      else Some result)"
  by pat_completeness auto
termination
  by (relation "measure (\<lambda>(key, p, left, right, result). nat (right - left + 1))")
     (auto simp: sdiv_two_nonneg)

definition FindFirstGreaterOrEqual :: "'k::linorder \<Rightarrow> ('k, 'v) page \<Rightarrow> int option" where
  "FindFirstGreaterOrEqual key p = first_ge_loop key p 0 (GetSize p - 1) (GetSize p)"

text \<open>
  The shifting loop of \<open>Insert\<close> and \<open>InsertAt\<close>:
  \<open>for (i = GetSize() - 1; i >= insert_pos; --i)\<close>.
\<close>

function leaf_shift_up :: "int \<Rightarrow> int \<Rightarrow> ('k, 'v) page \<Rightarrow> ('k, 'v) page" where
  "leaf_shift_up i insert_pos p =
     (if i \<ge> insert_pos then
        leaf_shift_up (i - 1) insert_pos
          (p\<lparr> key_array := (key_array p)(i + 1 := key_array p i),
              rid_array := (rid_array p)(i + 1 := rid_array p i) \<rparr>)
      else p)"
  by pat_completeness auto
termination
  by (relation "measure (\<lambda>(i, insert_pos, p). nat (i - insert_pos + 1))") auto

definition Leaf_InsertAt :: "int \<Rightarrow> 'k \<Rightarrow> 'v \<Rightarrow> ('k, 'v) page \<Rightarrow> ('k, 'v) page" where
  "Leaf_InsertAt insert_pos key value p =
     (let p1 = leaf_shift_up (GetSize p - 1) insert_pos p
      in p1\<lparr> key_array := (key_array p1)(insert_pos := key),
              rid_array := (rid_array p1)(insert_pos := value),
              psize := psize p1 + 1 \<rparr>)"

definition Leaf_Insert :: "'k::linorder \<Rightarrow> 'v \<Rightarrow> ('k, 'v) page \<Rightarrow> ('k, 'v) page option" where
  "Leaf_Insert key value p =
     do { insert_pos \<leftarrow> FindFirstGreaterOrEqual key p;
          Some (Leaf_InsertAt insert_pos key value p) }"

text \<open>
  \<open>Insert_Set_old\<close> and \<open>Insert_Set_new\<close>: \<open>all_data\<close> is a \<open>std::vector\<close>, read
  with \<open>operator[]\<close>.
\<close>

definition vector_at :: "'a list \<Rightarrow> int \<Rightarrow> 'a option" where
  "vector_at xs i = (if 0 \<le> i \<and> i < int (length xs) then Some (xs ! nat i) else None)"

function leaf_set_old_loop :: "int \<Rightarrow> int \<Rightarrow> ('k \<times> 'v) list \<Rightarrow> ('k, 'v) page \<Rightarrow> ('k, 'v) page option" where
  "leaf_set_old_loop i split_idx all_data p =
     (if i < split_idx then
        do { kv \<leftarrow> vector_at all_data i;
             leaf_set_old_loop (i + 1) split_idx all_data
               (p\<lparr> key_array := (key_array p)(i := fst kv),
                   rid_array := (rid_array p)(i := snd kv),
                   psize := psize p + 1 \<rparr>) }
      else Some p)"
  by pat_completeness auto
termination
  by (relation "measure (\<lambda>(i, split_idx, all_data, p). nat (split_idx - i))") auto

definition Leaf_Insert_Set_old :: "int \<Rightarrow> ('k \<times> 'v) list \<Rightarrow> ('k, 'v) page \<Rightarrow> ('k, 'v) page option" where
  "Leaf_Insert_Set_old split_idx all_data p = leaf_set_old_loop 0 split_idx all_data (p\<lparr> psize := 0 \<rparr>)"

function leaf_set_new_loop :: "int \<Rightarrow> int \<Rightarrow> ('k \<times> 'v) list \<Rightarrow> ('k, 'v) page \<Rightarrow> ('k, 'v) page option" where
  "leaf_set_new_loop i split_idx all_data p =
     (if i < int (length all_data) then
        do { kv \<leftarrow> vector_at all_data i;
             leaf_set_new_loop (i + 1) split_idx all_data
               (p\<lparr> key_array := (key_array p)(i - split_idx := fst kv),
                   rid_array := (rid_array p)(i - split_idx := snd kv),
                   psize := psize p + 1 \<rparr>) }
      else Some p)"
  by pat_completeness auto
termination
  by (relation "measure (\<lambda>(i, split_idx, all_data, p). nat (int (length all_data) - i))") auto

text \<open>
  The loop counter of \<open>Insert_Set_new\<close> is a \<open>size_t\<close> initialised from the \<open>int\<close>
  \<open>split_idx\<close>. A negative \<open>split_idx\<close> converts to a value of at least \<open>2^63\<close>, which no
  vector size reaches: the loop body is not run and the page is left with size 0.
\<close>

definition Leaf_Insert_Set_new :: "int \<Rightarrow> ('k \<times> 'v) list \<Rightarrow> ('k, 'v) page \<Rightarrow> ('k, 'v) page option" where
  "Leaf_Insert_Set_new split_idx all_data p =
     (if split_idx < 0 then Some (p\<lparr> psize := 0 \<rparr>)
      else leaf_set_new_loop split_idx split_idx all_data (p\<lparr> psize := 0 \<rparr>))"

function leaf_shift_down :: "int \<Rightarrow> ('k, 'v) page \<Rightarrow> ('k, 'v) page" where
  "leaf_shift_down i p =
     (if i < psize p - 1 then
        leaf_shift_down (i + 1)
          (p\<lparr> key_array := (key_array p)(i := key_array p (i + 1)),
              rid_array := (rid_array p)(i := rid_array p (i + 1)) \<rparr>)
      else p)"
  by pat_completeness auto
termination
  by (relation "measure (\<lambda>(i, p). nat (psize p - 1 - i))") auto

definition Leaf_RemoveAt :: "int \<Rightarrow> ('k, 'v) page \<Rightarrow> ('k, 'v) page option" where
  "Leaf_RemoveAt index p =
     do { assert_that (index \<ge> 0 \<and> index < psize p);
          let p1 = leaf_shift_down index p;
          Some (p1\<lparr> psize := psize p1 - 1 \<rparr>) }"

subsection \<open>Internal pages\<close>

definition Internal_Init :: "int \<Rightarrow> ('k, 'v) page \<Rightarrow> ('k, 'v) page" where
  "Internal_Init max_sz p = p\<lparr> max_size := max_sz, psize := 1, page_type := INTERNAL_PAGE \<rparr>"

definition SetSize :: "int \<Rightarrow> ('k, 'v) page \<Rightarrow> ('k, 'v) page" where
  "SetSize n p = p\<lparr> psize := n \<rparr>"

definition Internal_KeyAt :: "('k, 'v) page \<Rightarrow> int \<Rightarrow> 'k option" where
  "Internal_KeyAt p index = do { assert_that (index > 0 \<and> index < GetSize p); Some (key_array p index) }"

definition Internal_SetKeyAt :: "int \<Rightarrow> 'k \<Rightarrow> ('k, 'v) page \<Rightarrow> ('k, 'v) page option" where
  "Internal_SetKeyAt index key p =
     do { assert_that (index > 0 \<and> index < GetSize p);
          Some (p\<lparr> key_array := (key_array p)(index := key) \<rparr>) }"

definition Internal_SetValueAt :: "int \<Rightarrow> page_id_t \<Rightarrow> ('k, 'v) page \<Rightarrow> ('k, 'v) page option" where
  "Internal_SetValueAt index val p =
     do { assert_that (index \<ge> 0 \<and> index < GetSize p);
          Some (p\<lparr> page_id_array := (page_id_array p)(index := val) \<rparr>) }"

definition Internal_ValueAt :: "('k, 'v) page \<Rightarrow> int \<Rightarrow> page_id_t option" where
  "Internal_ValueAt p index =
     do { assert_that (index \<ge> 0 \<and> index < GetSize p); Some (page_id_array p index) }"

function value_index_loop :: "page_id_t \<Rightarrow> ('k, 'v) page \<Rightarrow> int \<Rightarrow> int" where
  "value_index_loop v p i =
     (if i < GetSize p then
        (if page_id_array p i = v then i else value_index_loop v p (i + 1))
      else -1)"
  by pat_completeness auto
termination
  by (relation "measure (\<lambda>(v, p, i). nat (GetSize p - i))") auto

definition ValueIndex :: "page_id_t \<Rightarrow> ('k, 'v) page \<Rightarrow> int" where
  "ValueIndex v p = value_index_loop v p 0"

text \<open>
  The loop of \<open>FindPage\<close>; its value is \<open>left\<close> when the loop is left, by \<open>break\<close> or
  by its condition.
\<close>

function find_page_loop :: "'k::linorder \<Rightarrow> ('k, 'v) page \<Rightarrow> int \<Rightarrow> int \<Rightarrow> int" where
  "find_page_loop key p left right =
     (if left \<le> right then
        (let mid = left + (right - left) sdiv 2;
             compareResult = comparator (key_array p mid) key
         in if compareResult = 0 then mid
            else if compareResult < 0 then find_page_loop key p (mid + 1) right
            else find_page_loop key p left (mid - 1))
      else left)"
  by pat_completeness auto
termination
  by (relation "measure (\<lambda>(key, p, left, right). nat (right - left + 1))")
     (auto simp: sdiv_two_nonneg)

definition FindPage :: "'k::linorder \<Rightarrow> ('k, 'v) page \<Rightarrow> page_id_t option" where
  "FindPage key p =
     do { assert_that (GetSize p \<ge> 2);
          let targetIndex = find_page_loop key p 1 (GetSize p - 1);
          if targetIndex \<ge> GetSize p then Some (page_id_array p (GetSize p - 1))
          else if comparator (key_array p targetIndex) key = 0
               then Some (page_id_array p targetIndex)
               else Some (page_id_array p (targetIndex - 1)) }"

function find_insert_pos_loop :: "'k::linorder \<Rightarrow> ('k, 'v) page \<Rightarrow> int \<Rightarrow> int \<Rightarrow> int \<Rightarrow> int option" where
  "find_insert_pos_loop key p left right insert_pos =
     (if left \<le> right then
        (let mid = left + (right - left) sdiv 2 in
         do {
           mid_key \<leftarrow> Internal_KeyAt p mid;
           let cmp = comparator mid_key key;
           if cmp > 0 then find_insert_pos_loop key p left (mid - 1) mid
           else if cmp < 0 then find_insert_pos_loop key p (mid + 1) right insert_pos
           else Some (-1)
         })
      else Some insert_pos)"
  by pat_completeness auto
termination
  by (relation "measure (\<lambda>(key, p, left, right, insert_pos). nat (right - left + 1))")
     (auto simp: sdiv_two_nonneg)

definition FindInsertPos :: "'k::linorder \<Rightarrow> ('k, 'v) page \<Rightarrow> int option" where
  "FindInsertPos key p = find_insert_pos_loop key p 1 (GetSize p - 1) (GetSize p)"

text \<open>\<open>InsertAt\<close>: \<open>for (i = GetSize(); i > insert_pos; --i) a[i] = a[i - 1]\<close>.\<close>

function internal_shift_up :: "int \<Rightarrow> int \<Rightarrow> ('k, 'v) page \<Rightarrow> ('k, 'v) page" where
  "internal_shift_up i lower p =
     (if i > lower then
        internal_shift_up (i - 1) lower
          (p\<lparr> key_array := (key_array p)(i := key_array p (i - 1)),
              page_id_array := (page_id_array p)(i := page_id_array p (i - 1)) \<rparr>)
      else p)"
  by pat_completeness auto
termination
  by (relation "measure (\<lambda>(i, lower, p). nat (i - lower))") auto

definition Internal_InsertAt :: "int \<Rightarrow> 'k \<Rightarrow> page_id_t \<Rightarrow> ('k, 'v) page \<Rightarrow> ('k, 'v) page" where
  "Internal_InsertAt insert_pos key val p =
     (let p1 = internal_shift_up (GetSize p) insert_pos p
      in p1\<lparr> key_array := (key_array p1)(insert_pos := key),
              page_id_array := (page_id_array p1)(insert_pos := val),
              psize := psize p1 + 1 \<rparr>)"

definition Internal_InsertAt_head :: "'k \<Rightarrow> page_id_t \<Rightarrow> ('k, 'v) page \<Rightarrow> ('k, 'v) page" where
  "Internal_InsertAt_head key val p =
     (let p1 = internal_shift_up (GetSize p) 0 p
      in p1\<lparr> key_array := (key_array p1)(1 := key),
              page_id_array := (page_id_array p1)(0 := val),
              psize := psize p1 + 1 \<rparr>)"

text \<open>
  \<open>Insert(key, value, insert_pos)\<close> shifts with
  \<open>for (i = GetSize() - 1; i >= insert_pos; --i) a[i + 1] = a[i]\<close>, which moves the same
  slots as the loop of \<open>InsertAt\<close>.
\<close>

function internal_shift_up' :: "int \<Rightarrow> int \<Rightarrow> ('k, 'v) page \<Rightarrow> ('k, 'v) page" where
  "internal_shift_up' i insert_pos p =
     (if i \<ge> insert_pos then
        internal_shift_up' (i - 1) insert_pos
          (p\<lparr> key_array := (key_array p)(i + 1 := key_array p i),
              page_id_array := (page_id_array p)(i + 1 := page_id_array p i) \<rparr>)
      else p)"
  by pat_completeness auto
termination
  by (relation "measure (\<lambda>(i, insert_pos, p). nat (i - insert_pos + 1))") auto

definition Internal_Insert :: "'k \<Rightarrow> page_id_t \<Rightarrow> int \<Rightarrow> ('k, 'v) page \<Rightarrow> ('k, 'v) page" where
  "Internal_Insert key val insert_pos p =
     (let p1 = internal_shift_up' (GetSize p - 1) insert_pos p
      in p1\<lparr> key_array := (key_array p1)(insert_pos := key),
              page_id_array := (page_id_array p1)(insert_pos := val),
              psize := psize p1 + 1 \<rparr>)"

function internal_set_old_loop ::
  "int \<Rightarrow> int \<Rightarrow> ('k \<times> page_id_t) list \<Rightarrow> ('k, 'v) page \<Rightarrow> ('k, 'v) page option" where
  "internal_set_old_loop i split_idx all_data p =
     (if i < split_idx then
        do { kv \<leftarrow> vector_at all_data i;
             let p1 = (if i > 0 then p\<lparr> key_array := (key_array p)(i := fst kv) \<rparr> else p);
             internal_set_old_loop (i + 1) split_idx all_data
               (p1\<lparr> page_id_array := (page_id_array p1)(i := snd kv),
                    psize := psize p1 + 1 \<rparr>) }
      else Some p)"
  by pat_completeness auto
termination
  by (relation "measure (\<lambda>(i, split_idx, all_data, p). nat (split_idx - i))") auto

definition Internal_Insert_Set_old ::
  "int \<Rightarrow> ('k \<times> page_id_t) list \<Rightarrow> ('k, 'v) page \<Rightarrow> ('k, 'v) page option" where
  "Internal_Insert_Set_old split_idx all_data p =
     internal_set_old_loop 0 split_idx all_data (p\<lparr> psize := 0 \<rparr>)"

function internal_set_new_loop ::
  "int \<Rightarrow> int \<Rightarrow> ('k \<times> page_id_t) list \<Rightarrow> ('k, 'v) page \<Rightarrow> ('k, 'v) page option" where
  "internal_set_new_loop i split_idx all_data p =
     (if i < int (length all_data) then
        do { kv \<leftarrow> vector_at all_data i;
             let new_idx = i - split_idx;
             let p1 = (if new_idx > 0 then p\<lparr> key_array := (key_array p)(new_idx := fst kv) \<rparr> else p);
             internal_set_new_loop (i + 1) split_idx all_data
               (p1\<lparr> page_id_array := (page_id_array p1)(new_idx := snd kv),
                    psize := psize p1 + 1 \<rparr>) }
      else Some p)"
  by pat_completeness auto
termination
  by (relation "measure (\<lambda>(i, split_idx, all_data, p). nat (int (length all_data) - i))") auto

text \<open>
  As in the leaf page, the loop counter of \<open>Insert_Set_new\<close> is a \<open>size_t\<close>: a
  negative \<open>split_idx\<close> skips the loop and leaves the page with size 0.
\<close>

definition Internal_Insert_Set_new ::
  "int \<Rightarrow> ('k \<times> page_id_t) list \<Rightarrow> ('k, 'v) page \<Rightarrow> ('k, 'v) page option" where
  "Internal_Insert_Set_new split_idx all_data p =
     (if split_idx < 0 then Some (p\<lparr> psize := 0 \<rparr>)
      else internal_set_new_loop split_idx split_idx all_data (p\<lparr> psize := 0 \<rparr>))"

function internal_shift_down :: "int \<Rightarrow> ('k, 'v) page \<Rightarrow> ('k, 'v) page" where
  "internal_shift_down i p =
     (if i < GetSize p - 1 then
        internal_shift_down (i + 1)
          (p\<lparr> key_array := (key_array p)(i := key_array p (i + 1)),
              page_id_array := (page_id_array p)(i := page_id_array p (i + 1)) \<rparr>)
      else p)"
  by pat_completeness (auto simp: GetSize_def)
termination
  by (relation "measure (\<lambda>(i, p). nat (psize p - 1 - i))") (auto simp: GetSize_def)

definition Internal_RemoveAt :: "int \<Rightarrow> ('k, 'v) page \<Rightarrow> ('k, 'v) page" where
  "Internal_RemoveAt index p =
     (let p1 = internal_shift_down index p in p1\<lparr> psize := psize p1 - 1 \<rparr>)"

definition Internal_RemoveAt_head :: "('k, 'v) page \<Rightarrow> ('k, 'v) page" where
  "Internal_RemoveAt_head p =
     (let p0 = p\<lparr> page_id_array := (page_id_array p)(0 := page_id_array p 1) \<rparr>;
          p1 = internal_shift_down 1 p0
      in p1\<lparr> psize := psize p1 - 1 \<rparr>)"

section \<open>The B+-tree (\<open>storage/index/b_plus_tree.cpp\<close>)\<close>

text \<open>
  The tree reaches its pages through guards of the buffer pool. Here the pages are a store
  indexed by page id, and one thread runs the operations, so a guard in \<open>write_set_\<close> is
  the id of its page and latches are not modelled. \<open>ReadPage\<close> and \<open>WritePage\<close> are
  taken to deliver every page (they end the process when the pool has no frame).
  \<open>new_page_ids\<close> are the answers of the pool to the coming calls of \<open>NewPage()\<close>: a
  fresh page id, whose page is all zero, or \<open>INVALID_PAGE_ID\<close> when the pool has no frame;
  \<open>deleted_pages\<close> are the ids passed to \<open>DeletePage\<close>.
\<close>

record ('k, 'v) BPlusTree =
  pages :: "page_id_t \<Rightarrow> ('k, 'v) page"
  header_page_id :: page_id_t
  leaf_max_size :: int
  internal_max_size :: int
  new_page_ids :: "page_id_t list"
  deleted_pages :: "page_id_t list"

record Context =
  ctx_root_page_id :: page_id_t
  write_set :: "page_id_t list"

definition zero_page :: "('k::zero, 'v::zero) page" where
  "zero_page =
     \<lparr> page_type = INVALID_INDEX_PAGE, psize = 0, max_size = 0, next_page_id = 0,
       num_tombstones = 0, key_array = (\<lambda>i. 0), rid_array = (\<lambda>i. 0),
       page_id_array = (\<lambda>i. 0), root_page_id = 0 \<rparr>"

definition tree_NewPage :: "('k::zero, 'v::zero) BPlusTree \<Rightarrow> page_id_t \<times> ('k, 'v) BPlusTree" where
  "tree_NewPage t =
     (case new_page_ids t of
        [] \<Rightarrow> (INVALID_PAGE_ID, t)
      | x # xs \<Rightarrow>
          (x, if x = INVALID_PAGE_ID then t\<lparr> new_page_ids := xs \<rparr>
              else t\<lparr> new_page_ids := xs, pages := (pages t)(x := zero_page) \<rparr>))"

definition tree_DeletePage :: "page_id_t \<Rightarrow> ('k, 'v) BPlusTree \<Rightarrow> ('k, 'v) BPlusTree" where
  "tree_DeletePage p t = t\<lparr> deleted_pages := deleted_pages t @ [p] \<rparr>"

definition update_page ::
  "page_id_t \<Rightarrow> ('k, 'v) page \<Rightarrow> ('k, 'v) BPlusTree \<Rightarrow> ('k, 'v) BPlusTree" where
  "update_page pid pg t = t\<lparr> pages := (pages t)(pid := pg) \<rparr>"

definition GetRootPageId :: "('k, 'v) BPlusTree \<Rightarrow> page_id_t" where
  "GetRootPageId t = root_page_id (pages t (header_page_id t))"

definition set_root :: "page_id_t \<Rightarrow> ('k, 'v) BPlusTree \<Rightarrow> ('k, 'v) BPlusTree" where
  "set_root r t =
     update_page (header_page_id t) ((pages t (header_page_id t))\<lparr> root_page_id := r \<rparr>) t"

definition ws_back :: "page_id_t list \<Rightarrow> page_id_t option" where
  "ws_back ws = (if ws = [] then None else Some (last ws))"

subsection \<open>Lookup\<close>

text \<open>
  The descent of \<open>GetValue\<close>, \<open>Insert\<close> and \<open>Remove\<close> under read guards: from a page
  to the child \<open>FindPage\<close> names, until a leaf is reached.
\<close>

partial_function (option) find_leaf ::
  "('k::linorder, 'v) BPlusTree \<Rightarrow> 'k \<Rightarrow> page_id_t \<Rightarrow> page_id_t option" where
  "find_leaf t key pid =
     (if IsLeafPage (pages t pid) then Some pid
      else do { child \<leftarrow> FindPage key (pages t pid); find_leaf t key child })"

declare find_leaf.simps [code]

definition GetValue ::
  "'k::linorder \<Rightarrow> 'v list \<Rightarrow> ('k, 'v) BPlusTree \<Rightarrow> (bool \<times> 'v list) option" where
  "GetValue key result t =
     (let root_page_id = GetRootPageId t in
      if root_page_id = INVALID_PAGE_ID then Some (False, result)
      else do {
        leaf_id \<leftarrow> find_leaf t key root_page_id;
        let leaf_page = pages t leaf_id;
        index \<leftarrow> FindFirstGreaterOrEqual key leaf_page;
        if index = GetSize leaf_page then Some (False, result)
        else do {
          k \<leftarrow> Leaf_KeyAt leaf_page index;
          if comparator k key = 0
          then do { v \<leftarrow> Leaf_ValueAt leaf_page index; Some (True, result @ [v]) }
          else Some (False, result) } })"

subsection \<open>Insert\<close>

definition vector_emplace :: "'a list \<Rightarrow> int \<Rightarrow> 'a \<Rightarrow> 'a list option" where
  "vector_emplace xs i x =
     (if 0 \<le> i \<and> i \<le> int (length xs)
      then Some (take (nat i) xs @ x # drop (nat i) xs) else None)"

definition CreateNewRoot ::
  "page_id_t \<Rightarrow> 'k \<Rightarrow> page_id_t \<Rightarrow> ('k::zero, 'v::zero) BPlusTree \<Rightarrow> (bool \<times> ('k, 'v) BPlusTree) option" where
  "CreateNewRoot left_page_id split_key right_page_id t =
     (case tree_NewPage t of (new_root_id, t1) \<Rightarrow>
        if new_root_id = INVALID_PAGE_ID then Some (False, t1)
        else do {
          let new_root = SetSize 2 (Internal_Init (internal_max_size t1) (pages t1 new_root_id));
          new_root \<leftarrow> Internal_SetValueAt 0 left_page_id new_root;
          new_root \<leftarrow> Internal_SetValueAt 1 right_page_id new_root;
          new_root \<leftarrow> Internal_SetKeyAt 1 split_key new_root;
          Some (True, set_root new_root_id (update_page new_root_id new_root t1)) })"

text \<open>
  \<open>all_data\<close> of \<open>InsertIntoInternal\<close>: a value-initialised key with child 0, then the
  slots \<open>1, \<dots>, size - 1\<close>. \<open>ValueAt(0)\<close> asserts that the page is not empty.
\<close>

definition internal_all_data :: "('k::zero, 'v) page \<Rightarrow> ('k \<times> page_id_t) list option" where
  "internal_all_data p =
     do { v0 \<leftarrow> Internal_ValueAt p 0;
          Some ((0, v0) # map (\<lambda>i. (key_array p i, page_id_array p i)) [1..GetSize p - 1]) }"

function InsertIntoInternal ::
  "Context \<Rightarrow> page_id_t \<Rightarrow> 'k \<Rightarrow> page_id_t \<Rightarrow> ('k::{linorder,zero}, 'v::zero) BPlusTree
     \<Rightarrow> (bool \<times> ('k, 'v) BPlusTree) option" where
  "InsertIntoInternal ctx internal_page_id key child_page_id t =
     do {
       internal_id \<leftarrow> ws_back (write_set ctx);
       let internal = pages t internal_id;
       insert_pos \<leftarrow> FindInsertPos key internal;
       if insert_pos = -1 then Some (False, t)
       else if GetSize internal < GetMaxSize internal then
         Some (True, update_page internal_id (Internal_Insert key child_page_id insert_pos internal) t)
       else do {
         all_data \<leftarrow> internal_all_data internal;
         all_data \<leftarrow> vector_emplace all_data insert_pos (key, child_page_id);
         let split_idx = int ((length all_data + 1) div 2);
         split_kv \<leftarrow> vector_at all_data split_idx;
         let split_key = fst split_kv;
         case tree_NewPage t of (new_internal_id, t1) \<Rightarrow>
           if new_internal_id = INVALID_PAGE_ID then Some (False, t1)
           else do {
             let t2 = update_page new_internal_id
                        (Internal_Init (internal_max_size t1) (pages t1 new_internal_id)) t1;
             old_page \<leftarrow> Internal_Insert_Set_old split_idx all_data (pages t2 internal_id);
             let t3 = update_page internal_id old_page t2;
             new_page \<leftarrow> Internal_Insert_Set_new split_idx all_data (pages t3 new_internal_id);
             let t4 = update_page new_internal_id new_page t3;
             if internal_page_id = GetRootPageId t4
             then CreateNewRoot internal_page_id split_key new_internal_id t4
             else do {
               let ctx' = ctx\<lparr> write_set := butlast (write_set ctx) \<rparr>;
               father_id \<leftarrow> ws_back (write_set ctx');
               InsertIntoInternal ctx' father_id split_key new_internal_id t4 } } } }"
  by pat_completeness auto
termination
  by (relation "measure (\<lambda>(ctx, internal_page_id, key, child_page_id, t). length (write_set ctx))")
     (auto simp: ws_back_def split: if_splits)

text \<open>\<open>all_data\<close> of \<open>InsertIntoLeaf\<close>: the slots \<open>0, \<dots>, size - 1\<close> of the leaf.\<close>

definition leaf_all_data :: "('k, 'v) page \<Rightarrow> ('k \<times> 'v) list" where
  "leaf_all_data p = map (\<lambda>i. (key_array p i, rid_array p i)) [0..GetSize p - 1]"

definition InsertIntoLeaf ::
  "Context \<Rightarrow> page_id_t \<Rightarrow> 'k \<Rightarrow> 'v \<Rightarrow> ('k::{linorder,zero}, 'v::zero) BPlusTree
     \<Rightarrow> (bool \<times> ('k, 'v) BPlusTree) option" where
  "InsertIntoLeaf ctx leaf_page_id key value t =
     do {
       leaf_id \<leftarrow> ws_back (write_set ctx);
       let leaf = pages t leaf_id;
       insert_pos \<leftarrow> FindFirstGreaterOrEqual key leaf;
       dup \<leftarrow> (if insert_pos < GetSize leaf
               then do { k \<leftarrow> Leaf_KeyAt leaf insert_pos; Some (comparator k key = 0) }
               else Some False);
       if dup then Some (False, t)
       else if GetSize leaf < GetMaxSize leaf then
         do { leaf' \<leftarrow> Leaf_Insert key value leaf; Some (True, update_page leaf_id leaf' t) }
       else do {
         all_data \<leftarrow> vector_emplace (leaf_all_data leaf) insert_pos (key, value);
         let split_idx = int ((length all_data + 1) div 2);
         split_kv \<leftarrow> vector_at all_data split_idx;
         let split_key = fst split_kv;
         case tree_NewPage t of (new_leaf_id, t1) \<Rightarrow>
           if new_leaf_id = INVALID_PAGE_ID then Some (False, t1)
           else do {
             let t2 = update_page new_leaf_id
                        (Leaf_Init (leaf_max_size t1) (pages t1 new_leaf_id)) t1;
             old_page \<leftarrow> Leaf_Insert_Set_old split_idx all_data (pages t2 leaf_id);
             let t3 = update_page leaf_id old_page t2;
             new_page \<leftarrow> Leaf_Insert_Set_new split_idx all_data (pages t3 new_leaf_id);
             let t4 = update_page new_leaf_id new_page t3;
             let t5 = update_page new_leaf_id
                        ((pages t4 new_leaf_id)\<lparr> next_page_id := next_page_id (pages t4 leaf_id) \<rparr>) t4;
             let t6 = update_page leaf_id
                        ((pages t5 leaf_id)\<lparr> next_page_id := new_leaf_id \<rparr>) t5;
             if leaf_page_id = GetRootPageId t6
             then CreateNewRoot leaf_page_id split_key new_leaf_id t6
             else do {
               let ctx' = ctx\<lparr> write_set := butlast (write_set ctx) \<rparr>;
               inter_page \<leftarrow> ws_back (write_set ctx');
               InsertIntoInternal ctx' inter_page split_key new_leaf_id t6 } } } }"

text \<open>
  The descent of \<open>Insert_write\<close> under write guards. \<open>current_page_id\<close> is always the page
  of the last guard of \<open>write_set_\<close>. When the page passed has room for one more child, the
  guards before it are released (\<open>keep_last_write_latch\<close>).
\<close>

partial_function (option) insert_descend ::
  "('k::linorder, 'v) BPlusTree \<Rightarrow> 'k \<Rightarrow> page_id_t list \<Rightarrow> page_id_t list option" where
  "insert_descend t key ws =
     do {
       current \<leftarrow> ws_back ws;
       if IsLeafPage (pages t current) then Some ws
       else do {
         let internal = pages t current;
         child \<leftarrow> FindPage key internal;
         let ws' = (if GetSize internal < GetMaxSize internal
                    then (if length ws > 1 then [last ws] else ws) else ws);
         insert_descend t key (ws' @ [child]) } }"

declare insert_descend.simps [code]

text \<open>
  \<open>Insert_write\<close> reads the root id twice, under the header guard and again after the
  guard is dropped, and calls \<open>Insert\<close> when the two differ. With one thread they are
  equal, and the call is left out.
\<close>

definition Insert_write ::
  "'k \<Rightarrow> 'v \<Rightarrow> ('k::{linorder,zero}, 'v::zero) BPlusTree \<Rightarrow> (bool \<times> ('k, 'v) BPlusTree) option" where
  "Insert_write key value t =
     (let ctx_root = GetRootPageId t in
      if ctx_root = INVALID_PAGE_ID then
        (case tree_NewPage t of (new_root_id, t1) \<Rightarrow>
           if new_root_id = INVALID_PAGE_ID then Some (False, t1)
           else do {
             let root_leaf = Leaf_Init (leaf_max_size t1) (pages t1 new_root_id);
             root_leaf \<leftarrow> Leaf_Insert key value root_leaf;
             Some (True, set_root new_root_id (update_page new_root_id root_leaf t1)) })
      else do {
        let current_page_id = GetRootPageId t;
        ws \<leftarrow> insert_descend t key [current_page_id];
        leaf_id \<leftarrow> ws_back ws;
        InsertIntoLeaf \<lparr> ctx_root_page_id = ctx_root, write_set = ws \<rparr> leaf_id key value t })"

definition Insert ::
  "'k \<Rightarrow> 'v \<Rightarrow> ('k::{linorder,zero}, 'v::zero) BPlusTree \<Rightarrow> (bool \<times> ('k, 'v) BPlusTree) option" where
  "Insert key value t =
     (let current_page_id = GetRootPageId t in
      if current_page_id = INVALID_PAGE_ID then Insert_write key value t
      else do {
        leaf_id \<leftarrow> find_leaf t key current_page_id;
        let bplus_page = pages t leaf_id;
        if GetSize bplus_page \<ge> GetMaxSize bplus_page then Insert_write key value t
        else InsertIntoLeaf \<lparr> ctx_root_page_id = INVALID_PAGE_ID, write_set = [leaf_id] \<rparr>
               leaf_id key value t })"

subsection \<open>Remove\<close>

definition IsLeafUnderflow :: "('k, 'v) page \<Rightarrow> bool" where
  "IsLeafUnderflow leaf \<longleftrightarrow> GetSize leaf < (GetMaxSize leaf + 1) sdiv 2"

definition IsInternalUnderflow :: "('k, 'v) page \<Rightarrow> bool" where
  "IsInternalUnderflow internal \<longleftrightarrow> GetSize internal < (GetMaxSize internal + 1) sdiv 2"

text \<open>
  The out-parameters of \<open>FindLeafSibling\<close> and \<open>FindInternalSibling\<close>, which have the
  same body. The parent is the page of the guard before the last one in \<open>write_set_\<close>.
\<close>

record Siblings =
  has_sibling :: bool
  parent_id :: page_id_t
  current_idx :: int
  sibling_page_id_left :: page_id_t
  sibling_page_id_right :: page_id_t
  sibling_idx_left :: int
  sibling_idx_right :: int

definition FindSibling ::
  "Context \<Rightarrow> page_id_t \<Rightarrow> ('k, 'v) BPlusTree \<Rightarrow> Siblings option" where
  "FindSibling ctx current_page_id t =
     (let none = \<lparr> has_sibling = False, parent_id = INVALID_PAGE_ID, current_idx = -1,
                   sibling_page_id_left = INVALID_PAGE_ID, sibling_page_id_right = INVALID_PAGE_ID,
                   sibling_idx_left = -1, sibling_idx_right = -1 \<rparr>;
          n = length (write_set ctx)
      in if n = 1 then Some none
         else do {
           assert_that (n \<ge> 2);
           let pid = write_set ctx ! (n - 2);
           let parent = pages t pid;
           let idx = ValueIndex current_page_id parent;
           let s0 = none\<lparr> parent_id := pid, current_idx := idx \<rparr>;
           if idx = -1 then Some s0
           else do {
             s1 \<leftarrow> (if idx > 0
                     then do { v \<leftarrow> Internal_ValueAt parent (idx - 1);
                               Some (s0\<lparr> sibling_idx_left := idx - 1, sibling_page_id_left := v,
                                        has_sibling := True \<rparr>) }
                     else Some s0);
             (if idx < GetSize parent - 1
              then do { v \<leftarrow> Internal_ValueAt parent (idx + 1);
                        Some (s1\<lparr> sibling_idx_right := idx + 1, sibling_page_id_right := v,
                                 has_sibling := True \<rparr>) }
              else Some s1) } })"

text \<open>
  The page functions below work on the store through page ids, one statement after the
  other, as the source does through its page pointers.
\<close>

definition RedistributeLeaf ::
  "page_id_t \<Rightarrow> page_id_t \<Rightarrow> int \<Rightarrow> int \<Rightarrow> page_id_t \<Rightarrow> ('k::linorder, 'v) BPlusTree
     \<Rightarrow> ('k, 'v) BPlusTree option" where
  "RedistributeLeaf current_id sibling_id cur_idx sibling_idx par_id t =
     (if sibling_idx < cur_idx then
        do {
          let sibling_leaf = pages t sibling_id;
          borrow_key \<leftarrow> Leaf_KeyAt sibling_leaf (GetSize sibling_leaf - 1);
          borrow_val \<leftarrow> Leaf_ValueAt sibling_leaf (GetSize sibling_leaf - 1);
          sibling_leaf' \<leftarrow> Leaf_RemoveAt (GetSize sibling_leaf - 1) sibling_leaf;
          let t1 = update_page sibling_id sibling_leaf' t;
          current_leaf' \<leftarrow> Leaf_Insert borrow_key borrow_val (pages t1 current_id);
          let t2 = update_page current_id current_leaf' t1;
          parent' \<leftarrow> Internal_SetKeyAt cur_idx borrow_key (pages t2 par_id);
          Some (update_page par_id parent' t2) }
      else
        do {
          let sibling_leaf = pages t sibling_id;
          borrow_key \<leftarrow> Leaf_KeyAt sibling_leaf 0;
          borrow_val \<leftarrow> Leaf_ValueAt sibling_leaf 0;
          sibling_leaf' \<leftarrow> Leaf_RemoveAt 0 sibling_leaf;
          let t1 = update_page sibling_id sibling_leaf' t;
          current_leaf' \<leftarrow> Leaf_Insert borrow_key borrow_val (pages t1 current_id);
          let t2 = update_page current_id current_leaf' t1;
          first_key \<leftarrow> Leaf_KeyAt (pages t2 sibling_id) 0;
          parent' \<leftarrow> Internal_SetKeyAt sibling_idx first_key (pages t2 par_id);
          Some (update_page par_id parent' t2) })"

text \<open>
  The loops of \<open>MergeLeaf\<close> append the slots of one page to another. When both pointers
  are the same page the loop bound grows with every step and the loop does not end; for two
  pages the loop reads the source page, which it does not change.
\<close>

function leaf_append_loop :: "int \<Rightarrow> ('k, 'v) page \<Rightarrow> ('k, 'v) page \<Rightarrow> ('k, 'v) page option" where
  "leaf_append_loop i src dst =
     (if i < GetSize src then
        do { k \<leftarrow> Leaf_KeyAt src i;
             v \<leftarrow> Leaf_ValueAt src i;
             leaf_append_loop (i + 1) src (Leaf_InsertAt (GetSize dst) k v dst) }
      else Some dst)"
  by pat_completeness auto
termination
  by (relation "measure (\<lambda>(i, src, dst). nat (GetSize src - i))") auto

definition MergeLeaf ::
  "page_id_t \<Rightarrow> page_id_t \<Rightarrow> int \<Rightarrow> int \<Rightarrow> page_id_t \<Rightarrow> page_id_t \<Rightarrow> ('k, 'v) BPlusTree
     \<Rightarrow> ('k, 'v) BPlusTree option" where
  "MergeLeaf current_id sibling_id cur_idx sibling_idx par_id current_page_id t =
     (if current_id = sibling_id then None
      else if sibling_idx < cur_idx then
        do {
          sibling_leaf' \<leftarrow> leaf_append_loop 0 (pages t current_id) (pages t sibling_id);
          let t1 = update_page sibling_id
                     (sibling_leaf'\<lparr> next_page_id := next_page_id (pages t current_id) \<rparr>) t;
          let t2 = update_page par_id (Internal_RemoveAt cur_idx (pages t1 par_id)) t1;
          Some (tree_DeletePage current_page_id t2) }
      else
        do {
          current_leaf' \<leftarrow> leaf_append_loop 0 (pages t sibling_id) (pages t current_id);
          let t1 = update_page current_id current_leaf' t;
          let sibling_page_id = next_page_id (pages t1 current_id);
          let t2 = update_page current_id
                     ((pages t1 current_id)\<lparr> next_page_id := next_page_id (pages t1 sibling_id) \<rparr>) t1;
          let t3 = update_page sibling_id
                     ((pages t2 sibling_id)\<lparr> next_page_id := INVALID_PAGE_ID \<rparr>) t2;
          let t4 = update_page par_id (Internal_RemoveAt sibling_idx (pages t3 par_id)) t3;
          Some (tree_DeletePage sibling_page_id t4) })"

definition RedistributeInternal ::
  "page_id_t \<Rightarrow> page_id_t \<Rightarrow> int \<Rightarrow> int \<Rightarrow> page_id_t \<Rightarrow> ('k, 'v) BPlusTree
     \<Rightarrow> ('k, 'v) BPlusTree option" where
  "RedistributeInternal current_id sibling_id cur_idx sibling_idx par_id t =
     (if sibling_idx < cur_idx then
        do {
          let sibling_internal = pages t sibling_id;
          let borrow_pos = GetSize sibling_internal - 1;
          borrow_key \<leftarrow> Internal_KeyAt sibling_internal borrow_pos;
          borrow_sub_id \<leftarrow> Internal_ValueAt sibling_internal borrow_pos;
          let t1 = update_page sibling_id (Internal_RemoveAt borrow_pos sibling_internal) t;
          parent_key \<leftarrow> Internal_KeyAt (pages t1 par_id) cur_idx;
          let t2 = update_page current_id
                     (Internal_InsertAt_head parent_key borrow_sub_id (pages t1 current_id)) t1;
          if GetSize (pages t2 sibling_id) > 1
          then do { parent' \<leftarrow> Internal_SetKeyAt cur_idx borrow_key (pages t2 par_id);
                    Some (update_page par_id parent' t2) }
          else Some t2 }
      else
        do {
          let sibling_internal = pages t sibling_id;
          borrow_key \<leftarrow> Internal_KeyAt sibling_internal 1;
          borrow_sub_id \<leftarrow> Internal_ValueAt sibling_internal 0;
          let t1 = update_page sibling_id (Internal_RemoveAt_head sibling_internal) t;
          parent_key \<leftarrow> Internal_KeyAt (pages t1 par_id) sibling_idx;
          let cur = pages t1 current_id;
          let t2 = update_page current_id
                     (Internal_InsertAt (GetSize cur) parent_key borrow_sub_id cur) t1;
          if GetSize (pages t2 sibling_id) > 1
          then do { parent' \<leftarrow> Internal_SetKeyAt sibling_idx borrow_key (pages t2 par_id);
                    Some (update_page par_id parent' t2) }
          else Some t2 })"

function internal_append_loop :: "int \<Rightarrow> ('k, 'v) page \<Rightarrow> ('k, 'v) page \<Rightarrow> ('k, 'v) page option" where
  "internal_append_loop i src dst =
     (if i < GetSize src then
        do { k \<leftarrow> Internal_KeyAt src i;
             v \<leftarrow> Internal_ValueAt src i;
             internal_append_loop (i + 1) src (Internal_InsertAt (GetSize dst) k v dst) }
      else Some dst)"
  by pat_completeness auto
termination
  by (relation "measure (\<lambda>(i, src, dst). nat (GetSize src - i))") auto

text \<open>
  In the second branch of \<open>MergeInternal\<close> the page that is deleted is the page of the
  last guard of \<open>write_set_\<close>.
\<close>

definition MergeInternal ::
  "Context \<Rightarrow> page_id_t \<Rightarrow> page_id_t \<Rightarrow> int \<Rightarrow> int \<Rightarrow> page_id_t \<Rightarrow> page_id_t
     \<Rightarrow> ('k, 'v) BPlusTree \<Rightarrow> ('k, 'v) BPlusTree option" where
  "MergeInternal ctx current_id sibling_id cur_idx sibling_idx par_id current_page_id t =
     (if current_id = sibling_id then None
      else if sibling_idx < cur_idx then
        do {
          split_key \<leftarrow> Internal_KeyAt (pages t par_id) cur_idx;
          v0 \<leftarrow> Internal_ValueAt (pages t current_id) 0;
          let sib = pages t sibling_id;
          let sib1 = Internal_InsertAt (GetSize sib) split_key v0 sib;
          sib2 \<leftarrow> internal_append_loop 1 (pages t current_id) sib1;
          let t1 = update_page sibling_id sib2 t;
          let t2 = update_page par_id (Internal_RemoveAt cur_idx (pages t1 par_id)) t1;
          Some (tree_DeletePage current_page_id t2) }
      else
        do {
          split_key \<leftarrow> Internal_KeyAt (pages t par_id) sibling_idx;
          v0 \<leftarrow> Internal_ValueAt (pages t sibling_id) 0;
          let cur = pages t current_id;
          let cur1 = Internal_InsertAt (GetSize cur) split_key v0 cur;
          cur2 \<leftarrow> internal_append_loop 1 (pages t sibling_id) cur1;
          let t1 = update_page current_id cur2 t;
          let t2 = update_page par_id (Internal_RemoveAt sibling_idx (pages t1 par_id)) t1;
          last_id \<leftarrow> ws_back (write_set ctx);
          Some (tree_DeletePage last_id t2) })"

text \<open>
  Pushing the guards of the siblings that exist; \<open>current_internal\<close> and \<open>current_leaf\<close>
  are the page of the last guard before the push.
\<close>

definition push_siblings :: "Siblings \<Rightarrow> page_id_t list \<Rightarrow> page_id_t list" where
  "push_siblings s ws =
     (let ws1 = (if sibling_page_id_left s \<noteq> INVALID_PAGE_ID
                 then ws @ [sibling_page_id_left s] else ws)
      in if sibling_page_id_right s \<noteq> INVALID_PAGE_ID
         then ws1 @ [sibling_page_id_right s] else ws1)"

function HandleInternalUnderflow ::
  "Context \<Rightarrow> page_id_t \<Rightarrow> ('k, 'v) BPlusTree \<Rightarrow> ('k, 'v) BPlusTree option" where
  "HandleInternalUnderflow ctx current_page_id t =
     (if current_page_id = ctx_root_page_id ctx then
        do {
          cur_id \<leftarrow> ws_back (write_set ctx);
          let current_internal = pages t cur_id;
          if GetSize current_internal = 1 then
            do { new_root_id \<leftarrow> Internal_ValueAt current_internal 0;
                 Some (tree_DeletePage current_page_id (set_root new_root_id t)) }
          else Some t }
      else
        do {
          cur_id \<leftarrow> ws_back (write_set ctx);
          if \<not> IsInternalUnderflow (pages t cur_id) then Some t
          else do {
            s \<leftarrow> FindSibling ctx current_page_id t;
            if \<not> has_sibling s then Some t
            else do {
              let ws1 = push_siblings s (write_set ctx);
              let left = pages t (sibling_page_id_left s);
              let right = pages t (sibling_page_id_right s);
              if sibling_page_id_left s \<noteq> INVALID_PAGE_ID
                 \<and> GetSize left > (GetMaxSize left + 1) sdiv 2 then
                RedistributeInternal cur_id (sibling_page_id_left s) (current_idx s)
                  (sibling_idx_left s) (parent_id s) t
              else if sibling_page_id_right s \<noteq> INVALID_PAGE_ID
                 \<and> GetSize right > (GetMaxSize right + 1) sdiv 2 then
                RedistributeInternal cur_id (sibling_page_id_right s) (current_idx s)
                  (sibling_idx_right s) (parent_id s) t
              else do {
                t1 \<leftarrow> (if sibling_page_id_left s \<noteq> INVALID_PAGE_ID then
                         MergeInternal (ctx\<lparr> write_set := ws1 \<rparr>) cur_id (sibling_page_id_left s)
                           (current_idx s) (sibling_idx_left s) (parent_id s) current_page_id t
                       else if sibling_page_id_right s \<noteq> INVALID_PAGE_ID then
                         MergeInternal (ctx\<lparr> write_set := ws1 \<rparr>) cur_id (sibling_page_id_right s)
                           (current_idx s) (sibling_idx_right s) (parent_id s) current_page_id t
                       else Some t);
                let ctx' = ctx\<lparr> write_set := butlast (write_set ctx) \<rparr>;
                up \<leftarrow> ws_back (write_set ctx');
                HandleInternalUnderflow ctx' up t1 } } } })"
  by pat_completeness auto
termination
  by (relation "measure (\<lambda>(ctx, current_page_id, t). length (write_set ctx))")
     (auto simp: ws_back_def split: if_splits)

definition HandleLeafUnderflow ::
  "Context \<Rightarrow> page_id_t \<Rightarrow> ('k::linorder, 'v) BPlusTree \<Rightarrow> ('k, 'v) BPlusTree option" where
  "HandleLeafUnderflow ctx current_page_id t =
     (if current_page_id = ctx_root_page_id ctx then
        do {
          cur_id \<leftarrow> ws_back (write_set ctx);
          if GetSize (pages t cur_id) = 0 then Some (set_root INVALID_PAGE_ID t) else Some t }
      else
        do {
          cur_id \<leftarrow> ws_back (write_set ctx);
          s \<leftarrow> FindSibling ctx current_page_id t;
          if \<not> has_sibling s then Some t
          else do {
            let ws1 = push_siblings s (write_set ctx);
            let left = pages t (sibling_page_id_left s);
            let right = pages t (sibling_page_id_right s);
            if sibling_page_id_left s \<noteq> INVALID_PAGE_ID
               \<and> GetSize left > (GetMaxSize left + 1) sdiv 2 then
              RedistributeLeaf cur_id (sibling_page_id_left s) (current_idx s)
                (sibling_idx_left s) (parent_id s) t
            else if sibling_page_id_right s \<noteq> INVALID_PAGE_ID
               \<and> GetSize right > (GetMaxSize right + 1) sdiv 2 then
              RedistributeLeaf cur_id (sibling_page_id_right s) (current_idx s)
                (sibling_idx_right s) (parent_id s) t
            else do {
              t1 \<leftarrow> (if sibling_page_id_left s \<noteq> INVALID_PAGE_ID then
                       MergeLeaf cur_id (sibling_page_id_left s) (current_idx s)
                         (sibling_idx_left s) (parent_id s) current_page_id t
                     else
                       MergeLeaf cur_id (sibling_page_id_right s) (current_idx s)
                         (sibling_idx_right s) (parent_id s) current_page_id t);
              let ctx' = ctx\<lparr> write_set := butlast (write_set ctx) \<rparr>;
              up \<leftarrow> ws_back (write_set ctx');
              HandleInternalUnderflow ctx' up t1 } } })"

definition RemoveFromLeaf ::
  "Context \<Rightarrow> page_id_t \<Rightarrow> 'k \<Rightarrow> ('k::linorder, 'v) BPlusTree \<Rightarrow> (bool \<times> ('k, 'v) BPlusTree) option" where
  "RemoveFromLeaf ctx leaf_page_id key t =
     do {
       leaf_id \<leftarrow> ws_back (write_set ctx);
       let leaf = pages t leaf_id;
       delete_pos \<leftarrow> FindFirstGreaterOrEqual key leaf;
       absent \<leftarrow> (if delete_pos \<ge> GetSize leaf then Some True
                  else do { k \<leftarrow> Leaf_KeyAt leaf delete_pos; Some (comparator k key \<noteq> 0) });
       if absent then Some (False, t)
       else do {
         leaf' \<leftarrow> Leaf_RemoveAt delete_pos leaf;
         let t1 = update_page leaf_id leaf' t;
         if IsLeafUnderflow (pages t1 leaf_id)
         then do { t2 \<leftarrow> HandleLeafUnderflow ctx leaf_page_id t1; Some (True, t2) }
         else Some (True, t1) } }"

text \<open>
  \<open>BPlusTree::Remove\<close> is \<open>BPlusTree_Remove\<close> below (the replacer has a
  \<open>Remove\<close> of its own). The descent of \<open>Remove_write\<close>: the guards before an internal page are released when
  the page has more than \<open>(internal_max_size_ + 1) / 2\<close> children.
\<close>

partial_function (option) remove_descend ::
  "('k::linorder, 'v) BPlusTree \<Rightarrow> 'k \<Rightarrow> page_id_t list \<Rightarrow> page_id_t list option" where
  "remove_descend t key ws =
     do {
       current \<leftarrow> ws_back ws;
       if IsLeafPage (pages t current) then Some ws
       else do {
         let internal = pages t current;
         child \<leftarrow> FindPage key internal;
         let ws' = (if GetSize internal > (internal_max_size t + 1) sdiv 2
                    then (if length ws > 1 then [last ws] else ws) else ws);
         remove_descend t key (ws' @ [child]) } }"

declare remove_descend.simps [code]

definition Remove_write :: "'k \<Rightarrow> ('k::linorder, 'v) BPlusTree \<Rightarrow> ('k, 'v) BPlusTree option" where
  "Remove_write key t =
     (let root_page_id = GetRootPageId t in
      if root_page_id = INVALID_PAGE_ID then Some t
      else do {
        ws \<leftarrow> remove_descend t key [root_page_id];
        leaf_id \<leftarrow> ws_back ws;
        r \<leftarrow> RemoveFromLeaf \<lparr> ctx_root_page_id = root_page_id, write_set = ws \<rparr> leaf_id key t;
        Some (snd r) })"

definition BPlusTree_Remove :: "'k \<Rightarrow> ('k::linorder, 'v) BPlusTree \<Rightarrow> ('k, 'v) BPlusTree option" where
  "BPlusTree_Remove key t =
     (let root_page_id = GetRootPageId t in
      if root_page_id = INVALID_PAGE_ID then Some t
      else do {
        leaf_id \<leftarrow> find_leaf t key root_page_id;
        if GetSize (pages t leaf_id) \<le> (leaf_max_size t + 1) sdiv 2 then Remove_write key t
        else do {
          r \<leftarrow> RemoveFromLeaf \<lparr> ctx_root_page_id = root_page_id, write_set = [leaf_id] \<rparr>
                 leaf_id key t;
          Some (snd r) } })"

section \<open>Keys of a leaf and example trees\<close>

text \<open>
  The keys a leaf holds are the first \<open>GetSize\<close> cells of its key array. A leaf is sorted
  when they are strictly ascending, which is what the binary search of
  \<open>FindFirstGreaterOrEqual\<close> relies on.
\<close>

definition leaf_keys :: "('k, 'v) page \<Rightarrow> 'k list" where
  "leaf_keys p = map (key_array p) [0..GetSize p - 1]"

definition sorted_keys :: "('k::linorder, 'v) page \<Rightarrow> bool" where
  "sorted_keys p \<longleftrightarrow> sorted_wrt (<) (leaf_keys p)"

definition has_key :: "('k, 'v) page \<Rightarrow> 'k \<Rightarrow> bool" where
  "has_key p key \<longleftrightarrow> key \<in> set (leaf_keys p)"

definition key_index :: "('k, 'v) page \<Rightarrow> 'k \<Rightarrow> int \<Rightarrow> bool" where
  "key_index p key i \<longleftrightarrow> 0 \<le> i \<and> i < GetSize p \<and> key_array p i = key"

text \<open>
  An empty tree as the constructor leaves it (the header page holds an invalid root id) over a
  buffer pool that answers \<open>NewPage\<close> with the ids 1, 2, ..., and the trees obtained from it
  by successive calls of \<open>Insert\<close>.
\<close>

definition empty_tree :: "int \<Rightarrow> int \<Rightarrow> (int, int) BPlusTree" where
  "empty_tree leaf_max internal_max =
     \<lparr> pages = (\<lambda>i. zero_page)(0 := zero_page\<lparr> root_page_id := INVALID_PAGE_ID \<rparr>),
       header_page_id = 0, leaf_max_size = leaf_max, internal_max_size = internal_max,
       new_page_ids = [1, 2, 3, 4, 5, 6, 7, 8], deleted_pages = [] \<rparr>"

fun insert_all :: "int list \<Rightarrow> (int, int) BPlusTree \<Rightarrow> (int, int) BPlusTree option" where
  "insert_all [] t = Some t"
| "insert_all (k # ks) t =
     (case Insert k (10 * k) t of
        Some (True, t') \<Rightarrow> insert_all ks t'
      | Some (False, t') \<Rightarrow> None
      | None \<Rightarrow> None)"

definition tree_of_three :: "(int, int) BPlusTree" where
  "tree_of_three =
     (case insert_all [2, 1, 3] (empty_tree 4 3) of Some t \<Rightarrow> t | None \<Rightarrow> empty_tree 4 3)"



text \<open>
  An empty tree over a buffer pool that grants two new pages and then has no frame left:
  the third \<open>NewPage\<close> returns \<open>INVALID_PAGE_ID\<close>.
\<close>

definition starved_tree :: "(int, int) BPlusTree" where
  "starved_tree = (empty_tree 2 3)\<lparr> new_page_ids := [1, 2] \<rparr>"


section \<open>Properties of the ARC replacer\<close>

subsection \<open>The frame-id range check\<close>

text \<open>
  The replacer's own test drives a replacer of capacity 7 through frames 1 to 7, so the
  frame id that equals the capacity is accepted: the check rejects \<open>frame_id > N\<close>, not
  \<open>frame_id \<ge> N\<close>.
\<close>

theorem frame_id_equal_to_capacity_accepted:
  "(7::int) \<ge> int (replacer_size (ArcReplacer_new 7))
   \<and> RecordAccess 7 4 (ArcReplacer_new 7) \<noteq> Inl Invalid_argument
   \<and> SetEvictable 7 True (ArcReplacer_new 7) \<noteq> Inl Invalid_argument
   \<and> Remove 7 (ArcReplacer_new 7) \<noteq> Inl Invalid_argument"
  by (simp add: RecordAccess_def SetEvictable_def Remove_def frame_id_invalid_def
      ArcReplacer_new_def ghost_status_def)

text \<open>
  Claim C6, as the code has it: \<open>RecordAccess\<close>, \<open>SetEvictable\<close> and \<open>Remove\<close> signal
  out-of-range exactly for the frame ids outside \<open>[0, N]\<close>, that is for \<open>frame_id < 0\<close>
  and for \<open>frame_id > N\<close>. The rejected call returns the error alone: no field of the
  replacer has been assigned.
\<close>

theorem out_of_range_iff_outside_closed_interval:
  "(RecordAccess f p r = Inl Invalid_argument \<longleftrightarrow> f < 0 \<or> int (replacer_size r) < f)
   \<and> (SetEvictable f b r = Inl Invalid_argument \<longleftrightarrow> f < 0 \<or> int (replacer_size r) < f)
   \<and> (Remove f r = Inl Invalid_argument \<longleftrightarrow> f < 0 \<or> int (replacer_size r) < f)"
proof -
  have range: "frame_id_invalid r f \<longleftrightarrow> f < 0 \<or> int (replacer_size r) < f"
    unfolding frame_id_invalid_def by auto
  have "RecordAccess f p r = Inl Invalid_argument \<longleftrightarrow> frame_id_invalid r f"
    unfolding RecordAccess_def by (simp split: option.split)
  moreover have "SetEvictable f b r = Inl Invalid_argument \<longleftrightarrow> frame_id_invalid r f"
    unfolding SetEvictable_def by (simp split: option.split)
  moreover have "Remove f r = Inl Invalid_argument \<longleftrightarrow> frame_id_invalid r f"
    unfolding Remove_def by (simp add: Let_def split: option.split)
  ultimately show ?thesis using range by simp
qed

subsection \<open>The target update on a ghost hit\<close>

text \<open>
  Claim C1 at a reachable state. After \<open>ghost_hit_trace\<close> both ghost lists hold two
  pages and the target is 0. Page 10 is then accessed again: a hit in \<open>mru_ghost_\<close>. The
  ratio of the lengths at the moment of the hit is \<open>2 / 2\<close>, which asks for an increase
  of 1. The code removes the ghost entry before it reads the two sizes, divides 2 by 1 and
  raises the target to 2.
\<close>

theorem ghost_hit_reads_sizes_after_removal:
  "let r = run_ops ghost_hit_trace (ArcReplacer_new 4) in
     mru_ghost r = [11, 10] \<and> mfu_ghost r = [13, 12] \<and> mru_target_size r = 0
     \<and> ghost_status r 10 = Some MRU_GHOST
     \<and> max 1 (length (mfu_ghost r) div length (mru_ghost r)) = 1
     \<and> map_sum id mru_target_size (RecordAccess 0 10 r) = Inr 2
     \<and> map_sum id mfu (RecordAccess 0 10 r) = Inr [0]
     \<and> map_sum id mru_ghost (RecordAccess 0 10 r) = Inr [11]"
  by code_simp

subsection \<open>The size bounds of the four lists\<close>

















































section \<open>Properties of the buffer pool and the page guards\<close>

subsection \<open>Negative page ids\<close>

text \<open>
  Claim C10: for a negative page id, \<open>CheckedReadPage\<close> and \<open>CheckedWritePage\<close> return
  \<open>std::nullopt\<close> and the pool they return is the pool they were given: page table, free
  list, replacer, frames and scheduler queue are untouched, whatever the disk would answer.
\<close>

theorem checked_page_negative_id:
  assumes "p < 0"
  shows "CheckedReadPage p flush_io read_io bytes b = (Inr None, b)
       \<and> CheckedWritePage p flush_io read_io bytes b = (Inr None, b)"
  using assms by (simp add: CheckedReadPage_def CheckedWritePage_def checked_page_def)

theorem checked_page_negative_id_witness:
  "(-1::int) < 0
   \<and> CheckedReadPage (-1) Raised (Value False) (\<lambda>i. 0) pool_after_write = (Inr None, pool_after_write)
   \<and> CheckedWritePage (-1) Raised (Value False) (\<lambda>i. 0) pool_after_write = (Inr None, pool_after_write)"
  using checked_page_negative_id [of "-1" Raised "Value False" "\<lambda>i. 0" pool_after_write]
  by simp

subsection \<open>Dropping a guard\<close>

text \<open>
  Claim C9, for both guard classes (\<open>mode\<close>). Dropping a valid guard whose frame id the
  replacer accepts releases the latch in the guard's mode (a read guard leaves the latch
  with one reader fewer, a write guard leaves it without a writer), decrements the pin count
  by one, calls \<open>SetEvictable(frame_id, true)\<close> exactly when the decremented count is zero,
  and invalidates the guard; dropping the resulting guard again returns the same guard and
  the same pool.
\<close>

theorem guard_drop_once_and_twice:
  assumes "is_valid g"
    and "\<not> frame_id_invalid (replacer b) (fh_frame_id (frames b (frame g)))"
  shows "\<exists>rep.
      guard_Drop mode g b =
        (Inr (), g\<lparr> is_valid := False \<rparr>,
         b\<lparr> frames := (frames b)(frame g := (frames b (frame g))
                \<lparr> rwlatch :=
                    (if mode = Read_guard
                     then \<lparr> readers = readers (rwlatch (frames b (frame g))) - 1,
                            writer = writer (rwlatch (frames b (frame g))) \<rparr>
                     else \<lparr> readers = readers (rwlatch (frames b (frame g))),
                            writer = False \<rparr>),
                  pin_count := pin_count (frames b (frame g)) - 1 \<rparr>),
             replacer := rep \<rparr>)
      \<and> (if pin_count (frames b (frame g)) - 1 = 0
          then SetEvictable (fh_frame_id (frames b (frame g))) True (replacer b) = Inr rep
          else rep = replacer b)
      \<and> (case guard_Drop mode g b of (res, g', b') \<Rightarrow> guard_Drop mode g' b' = (Inr (), g', b'))
      \<and> ReadPageGuard_Drop = guard_Drop Read_guard
      \<and> WritePageGuard_Drop = guard_Drop Write_guard"
proof -
  let ?fh = "frames b (frame g)"
  let ?l = "(if mode = Read_guard
            then \<lparr> readers = readers (rwlatch ?fh) - 1, writer = writer (rwlatch ?fh) \<rparr>
            else \<lparr> readers = readers (rwlatch ?fh), writer = False \<rparr>)"
  let ?fh' = "?fh\<lparr> rwlatch := ?l, pin_count := pin_count ?fh - 1 \<rparr>"
  have names: "ReadPageGuard_Drop = guard_Drop Read_guard"
    "WritePageGuard_Drop = guard_Drop Write_guard"
    by (simp_all add: ReadPageGuard_Drop_def WritePageGuard_Drop_def)
  have latch: "(if mode = Read_guard then unlock_shared (rwlatch ?fh) else unlock (rwlatch ?fh)) = ?l"
    by (simp add: unlock_shared_def unlock_def)
  show ?thesis
  proof (cases "pin_count ?fh - 1 = 0")
    case True
    have "\<exists>rep. SetEvictable (fh_frame_id ?fh) True (replacer b) = Inr rep"
      using assms(2) by (auto simp: SetEvictable_def split: option.split)
    then obtain rep where rep: "SetEvictable (fh_frame_id ?fh) True (replacer b) = Inr rep" ..
    have d: "guard_Drop mode g b =
        (Inr (), g\<lparr> is_valid := False \<rparr>, b\<lparr> frames := (frames b)(frame g := ?fh'), replacer := rep \<rparr>)"
      using assms(1) True rep unfolding guard_Drop_def Let_def latch by simp
    show ?thesis
      unfolding d using True rep names by (simp add: guard_Drop_def)
  next
    case False
    have d: "guard_Drop mode g b =
        (Inr (), g\<lparr> is_valid := False \<rparr>,
         b\<lparr> frames := (frames b)(frame g := ?fh'), replacer := replacer b \<rparr>)"
      using assms(1) False unfolding guard_Drop_def Let_def latch by simp
    show ?thesis
      unfolding d using False names by (simp add: guard_Drop_def)
  qed
qed

theorem guard_drop_once_and_twice_witness:
  "is_valid first_guard
   \<and> \<not> frame_id_invalid (replacer pool_with_write_guard)
         (fh_frame_id (frames pool_with_write_guard (frame first_guard)))
   \<and> \<not> frame_id_invalid (replacer pool_with_read_guard)
         (fh_frame_id (frames pool_with_read_guard (frame first_guard)))
   \<and> rwlatch (frames pool_with_write_guard 0) = \<lparr> readers = 0, writer = True \<rparr>
   \<and> (case guard_Drop Write_guard first_guard pool_with_write_guard of (res, g', b') \<Rightarrow>
        res = Inr () \<and> \<not> is_valid g'
        \<and> pin_count (frames pool_with_write_guard 0) = 1
        \<and> pin_count (frames b' 0) = 0
        \<and> rwlatch (frames b' 0) = \<lparr> readers = 0, writer = False \<rparr>
        \<and> map_option evictable (alive_map (replacer b') 0) = Some True
        \<and> guard_Drop Write_guard g' b' = (Inr (), g', b'))
   \<and> rwlatch (frames pool_with_read_guard 0) = \<lparr> readers = 1, writer = False \<rparr>
   \<and> (case ReadPageGuard_Drop first_guard pool_with_read_guard of (res, g', b') \<Rightarrow>
        res = Inr () \<and> \<not> is_valid g'
        \<and> pin_count (frames pool_with_read_guard 0) = 1
        \<and> pin_count (frames b' 0) = 0
        \<and> rwlatch (frames b' 0) = \<lparr> readers = 0, writer = False \<rparr>
        \<and> map_option evictable (alive_map (replacer b') 0) = Some True
        \<and> ReadPageGuard_Drop g' b' = (Inr (), g', b'))"
proof -
  have v: "is_valid first_guard" by (simp add: first_guard_def)
  have f: "frame first_guard = 0" by (simp add: first_guard_def)
  have r: "\<not> frame_id_invalid (replacer pool_with_write_guard)
         (fh_frame_id (frames pool_with_write_guard (frame first_guard)))"
    by code_simp
  have p: "pin_count (frames pool_with_write_guard 0) = 1"
    and l: "rwlatch (frames pool_with_write_guard 0) = \<lparr> readers = 0, writer = True \<rparr>"
    and i: "fh_frame_id (frames pool_with_write_guard 0) = 0"
    and e: "map_sum id (\<lambda>rep. map_option evictable (alive_map rep 0))
              (SetEvictable 0 True (replacer pool_with_write_guard)) = Inr (Some True)"
    by code_simp+
  from guard_drop_once_and_twice [OF v r, of Write_guard]
  obtain rep where
    d: "guard_Drop Write_guard first_guard pool_with_write_guard =
        (Inr (), first_guard\<lparr> is_valid := False \<rparr>,
         pool_with_write_guard\<lparr> frames := (frames pool_with_write_guard)(0 :=
             (frames pool_with_write_guard 0)
                \<lparr> rwlatch := \<lparr> readers = readers (rwlatch (frames pool_with_write_guard 0)),
                               writer = False \<rparr>,
                  pin_count := pin_count (frames pool_with_write_guard 0) - 1 \<rparr>),
             replacer := rep \<rparr>)"
    and s: "SetEvictable 0 True (replacer pool_with_write_guard) = Inr rep"
    and t: "(case guard_Drop Write_guard first_guard pool_with_write_guard of
              (res, g', b') \<Rightarrow> guard_Drop Write_guard g' b' = (Inr (), g', b'))"
    unfolding f p i by auto
  have w: "(case guard_Drop Write_guard first_guard pool_with_write_guard of (res, g', b') \<Rightarrow>
        res = Inr () \<and> \<not> is_valid g'
        \<and> pin_count (frames pool_with_write_guard 0) = 1
        \<and> pin_count (frames b' 0) = 0
        \<and> rwlatch (frames b' 0) = \<lparr> readers = 0, writer = False \<rparr>
        \<and> map_option evictable (alive_map (replacer b') 0) = Some True
        \<and> guard_Drop Write_guard g' b' = (Inr (), g', b'))"
    using t e unfolding d s by (simp add: p l)
  have r': "\<not> frame_id_invalid (replacer pool_with_read_guard)
         (fh_frame_id (frames pool_with_read_guard (frame first_guard)))"
    by code_simp
  have p': "pin_count (frames pool_with_read_guard 0) = 1"
    and l': "rwlatch (frames pool_with_read_guard 0) = \<lparr> readers = 1, writer = False \<rparr>"
    and i': "fh_frame_id (frames pool_with_read_guard 0) = 0"
    and e': "map_sum id (\<lambda>rep. map_option evictable (alive_map rep 0))
              (SetEvictable 0 True (replacer pool_with_read_guard)) = Inr (Some True)"
    by code_simp+
  from guard_drop_once_and_twice [OF v r', of Read_guard]
  obtain rep' where
    d': "guard_Drop Read_guard first_guard pool_with_read_guard =
        (Inr (), first_guard\<lparr> is_valid := False \<rparr>,
         pool_with_read_guard\<lparr> frames := (frames pool_with_read_guard)(0 :=
             (frames pool_with_read_guard 0)
                \<lparr> rwlatch := \<lparr> readers = readers (rwlatch (frames pool_with_read_guard 0)) - 1,
                               writer = writer (rwlatch (frames pool_with_read_guard 0)) \<rparr>,
                  pin_count := pin_count (frames pool_with_read_guard 0) - 1 \<rparr>),
             replacer := rep' \<rparr>)"
    and s': "SetEvictable 0 True (replacer pool_with_read_guard) = Inr rep'"
    and t': "(case guard_Drop Read_guard first_guard pool_with_read_guard of
              (res, g', b') \<Rightarrow> guard_Drop Read_guard g' b' = (Inr (), g', b'))"
    and n': "ReadPageGuard_Drop = guard_Drop Read_guard"
    unfolding f p' i' by auto
  have rd: "(case ReadPageGuard_Drop first_guard pool_with_read_guard of (res, g', b') \<Rightarrow>
        res = Inr () \<and> \<not> is_valid g'
        \<and> pin_count (frames pool_with_read_guard 0) = 1
        \<and> pin_count (frames b' 0) = 0
        \<and> rwlatch (frames b' 0) = \<lparr> readers = 0, writer = False \<rparr>
        \<and> map_option evictable (alive_map (replacer b') 0) = Some True
        \<and> ReadPageGuard_Drop g' b' = (Inr (), g', b'))"
    using t' e' unfolding n' d' s' by (simp add: p' l')
  show ?thesis
    using v r r' l l' w rd by (intro conjI)
qed

subsection \<open>Flushing through a guard\<close>

text \<open>
  Claim C8 on a pool with one frame: page 0 has been written through a write guard, the
  guard has been dropped, and a read guard now holds the dirty page. \<open>ReadPageGuard::Flush\<close>
  puts the write request on the scheduler's queue and returns with the dirty flag already
  cleared: the function takes no result of the request, so the flag is cleared whether the
  write succeeds, fails or has not run yet. \<open>WritePageGuard::Flush\<close>, on the dirty page
  under the write guard, waits, but on the promise that \<open>Schedule\<close> has moved away, and
  leaves the page dirty even when the write is fulfilled.
\<close>

theorem read_guard_flush_clears_dirty_at_once:
  "is_dirty (frames pool_with_read_guard 0)
   \<and> map_option (\<lambda>b. is_dirty (frames b 0)) (ReadPageGuard_Flush first_guard pool_with_read_guard)
       = Some False
   \<and> map_option (\<lambda>b. length (disk_queue b)) (ReadPageGuard_Flush first_guard pool_with_read_guard)
       = Some (Suc (length (disk_queue pool_with_read_guard)))
   \<and> map_option (\<lambda>b. is_dirty (frames b 0))
        (case WritePageGuard_GetDataMut first_guard pool_with_write_guard of
           Some b \<Rightarrow> WritePageGuard_Flush first_guard (Value True) b | None \<Rightarrow> None)
       = Some True"
  by code_simp

subsection \<open>The replacer and the page table\<close>

text \<open>
  Claim C2 on a pool with one frame. After \<open>NewPage()\<close> page 0 is resident in frame 0 and
  the replacer tracks no frame. After a write through a guard and its drop, frame 0 is in
  \<open>mru_\<close> and evictable; \<open>DeletePage(0)\<close> then returns \<open>true\<close>, empties both tables and
  puts frame 0 on the free list, and the replacer still holds frame 0 in \<open>mru_\<close>, evictable:
  \<open>DeletePage\<close> does not call the replacer.
\<close>

theorem delete_page_leaves_frame_in_replacer:
  "page_table pool_after_new_page 0 = Some 0
   \<and> mru (replacer pool_after_new_page) = [] \<and> mfu (replacer pool_after_new_page) = []
   \<and> page_table pool_after_write 0 = Some 0
   \<and> pin_count (frames pool_after_write 0) = 0
   \<and> mru (replacer pool_after_write) = [0]
   \<and> (case DeletePage 0 (Value True) pool_after_write of (res, b) \<Rightarrow>
         res \<and> page_table b 0 = None \<and> frame_table b 0 = None \<and> free_frames b = [0]
         \<and> mru (replacer b) = [0] \<and> mfu (replacer b) = []
         \<and> map_option evictable (alive_map (replacer b) 0) = Some True)"
  by code_simp

section \<open>Properties of the B+-tree\<close>

subsection \<open>Binary search in a sorted leaf\<close>

lemma upto_nth_from_zero: "k < nat (n + 1) \<Longrightarrow> [0..n] ! k = int k"
  by (simp add: nth_upto)

lemma sorted_keys_index:
  "sorted_keys p \<longleftrightarrow>
     (\<forall>i j. 0 \<le> i \<and> i < j \<and> j < GetSize p \<longrightarrow> key_array p i < key_array p j)"
proof
  assume s: "sorted_keys p"
  show "\<forall>i j. 0 \<le> i \<and> i < j \<and> j < GetSize p \<longrightarrow> key_array p i < key_array p j"
  proof (intro allI impI, elim conjE)
    fix i j :: int assume ij: "0 \<le> i" "i < j" "j < GetSize p"
    have len: "nat j < length (leaf_keys p)" using ij by (simp add: leaf_keys_def)
    have "leaf_keys p ! nat i < leaf_keys p ! nat j"
      using s ij len unfolding sorted_keys_def sorted_wrt_iff_nth_less by auto
    then show "key_array p i < key_array p j"
      using ij by (simp add: leaf_keys_def nth_upto)
  qed
next
  assume a: "\<forall>i j. 0 \<le> i \<and> i < j \<and> j < GetSize p \<longrightarrow> key_array p i < key_array p j"
  show "sorted_keys p"
    unfolding sorted_keys_def sorted_wrt_iff_nth_less
  proof (intro allI impI)
    fix i j :: nat assume ij: "i < j" "j < length (leaf_keys p)"
    then have "int j < GetSize p" by (simp add: leaf_keys_def)
    then have "key_array p (int i) < key_array p (int j)" using a ij by simp
    then show "leaf_keys p ! i < leaf_keys p ! j"
      using ij by (simp add: leaf_keys_def nth_upto)
  qed
qed

lemma has_key_index: "has_key p key \<longleftrightarrow> (\<exists>i. key_index p key i)"
  by (auto simp: has_key_def leaf_keys_def key_index_def)

lemma leaf_all_data_index:
  "(key, v) \<in> set (leaf_all_data p) \<longleftrightarrow>
     (\<exists>i. key_index p key i \<and> rid_array p i = v)"
  by (auto simp: leaf_all_data_def key_index_def)

lemma Leaf_KeyAt_in_range:
  "0 \<le> i \<Longrightarrow> i < GetSize p \<Longrightarrow> Leaf_KeyAt p i = Some (key_array p i)"
  by (simp add: Leaf_KeyAt_def assert_that_def)

lemma Leaf_ValueAt_in_range:
  "0 \<le> i \<Longrightarrow> i < GetSize p \<Longrightarrow> Leaf_ValueAt p i = Some (rid_array p i)"
  by (simp add: Leaf_ValueAt_def assert_that_def)

lemma comparator_ge: "comparator a b \<ge> 0 \<longleftrightarrow> b \<le> a"
  by (auto simp: comparator_def)

lemma comparator_eq: "comparator a b = 0 \<longleftrightarrow> a = b"
  by (auto simp: comparator_def)

lemma first_ge_loop_correct:
  assumes "sorted_keys p"
    and "0 \<le> left" and "left \<le> right + 1" and "result = right + 1" and "result \<le> GetSize p"
    and "\<forall>i. 0 \<le> i \<and> i < left \<longrightarrow> key_array p i < key"
    and "\<forall>i. result \<le> i \<and> i < GetSize p \<longrightarrow> key \<le> key_array p i"
  shows "\<exists>r. first_ge_loop key p left right result = Some r \<and> 0 \<le> r \<and> r \<le> GetSize p
           \<and> (\<forall>i. 0 \<le> i \<and> i < r \<longrightarrow> key_array p i < key)
           \<and> (\<forall>i. r \<le> i \<and> i < GetSize p \<longrightarrow> key \<le> key_array p i)"
  using assms
proof (induction key p left right result rule: first_ge_loop.induct)
  case (1 key p left right result)
  show ?case
  proof (cases "left \<le> right")
    case False
    then have "left = result" using "1.prems" by simp
    then show ?thesis
      using False "1.prems" by (subst first_ge_loop.simps) auto
  next
    case True
    define mid where "mid = left + (right - left) sdiv 2"
    have mid: "left \<le> mid" "mid \<le> right"
      using True by (simp_all add: mid_def sdiv_two_nonneg)
    then have in_range: "0 \<le> mid" "mid < GetSize p" using "1.prems" by auto
    have ka: "Leaf_KeyAt p mid = Some (key_array p mid)"
      using in_range by (rule Leaf_KeyAt_in_range)
    have mono: "i \<le> j \<Longrightarrow> 0 \<le> i \<Longrightarrow> j < GetSize p \<Longrightarrow> key_array p i \<le> key_array p j" for i j
      using "1.prems"(1) unfolding sorted_keys_index by (cases "i = j") (auto simp: less_imp_le)
    show ?thesis
    proof (cases "key \<le> key_array p mid")
      case ge: True
      have step: "first_ge_loop key p left right result = first_ge_loop key p left (mid - 1) mid"
        using True ka ge
        by (subst first_ge_loop.simps) (simp add: mid_def[symmetric] comparator_ge)
      have "\<forall>i. mid \<le> i \<and> i < GetSize p \<longrightarrow> key \<le> key_array p i"
        using ge mono in_range by (meson order_trans)
      then show ?thesis
        unfolding step
        using "1.IH"(1)[OF True mid_def ka] ge "1.prems" mid in_range
        by (simp add: comparator_ge)
    next
      case lt: False
      have step: "first_ge_loop key p left right result = first_ge_loop key p (mid + 1) right result"
        using True ka lt
        by (subst first_ge_loop.simps) (simp add: mid_def[symmetric] comparator_ge)
      have "\<forall>i. 0 \<le> i \<and> i < mid + 1 \<longrightarrow> key_array p i < key"
      proof (intro allI impI)
        fix i assume "0 \<le> i \<and> i < mid + 1"
        then have "key_array p i \<le> key_array p mid" using mono[of i mid] in_range by simp
        then show "key_array p i < key" using lt by simp
      qed
      then show ?thesis
        unfolding step
        using "1.IH"(2)[OF True mid_def ka] lt "1.prems" mid in_range
        by (simp add: comparator_ge)
    qed
  qed
qed

lemma FindFirstGreaterOrEqual_correct:
  assumes "sorted_keys p" and "0 \<le> GetSize p"
  shows "\<exists>r. FindFirstGreaterOrEqual key p = Some r \<and> 0 \<le> r \<and> r \<le> GetSize p
           \<and> (\<forall>i. 0 \<le> i \<and> i < r \<longrightarrow> key_array p i < key)
           \<and> (\<forall>i. r \<le> i \<and> i < GetSize p \<longrightarrow> key \<le> key_array p i)"
  unfolding FindFirstGreaterOrEqual_def
  by (rule first_ge_loop_correct[OF assms(1)]) (use assms(2) in auto)

lemma FindFirstGreaterOrEqual_present:
  assumes "sorted_keys p" and "key_index p key i"
  shows "FindFirstGreaterOrEqual key p = Some i"
proof -
  have sz: "0 \<le> GetSize p" using assms(2) by (auto simp: key_index_def)
  from FindFirstGreaterOrEqual_correct[OF assms(1) sz, of key] obtain r where
    r: "FindFirstGreaterOrEqual key p = Some r" "0 \<le> r" "r \<le> GetSize p"
      "\<forall>j. 0 \<le> j \<and> j < r \<longrightarrow> key_array p j < key"
      "\<forall>j. r \<le> j \<and> j < GetSize p \<longrightarrow> key \<le> key_array p j"
    by blast
  have i: "0 \<le> i" "i < GetSize p" "key_array p i = key"
    using assms(2) by (auto simp: key_index_def)
  have "\<not> i < r" using r(4) i by auto
  moreover have "\<not> r < i"
  proof
    assume "r < i"
    then have "key_array p r < key_array p i"
      using assms(1) r(2) i(2) by (auto simp: sorted_keys_index)
    moreover have "key \<le> key_array p r" using r(5) \<open>r < i\<close> i(2) by auto
    ultimately show False using i(3) by simp
  qed
  ultimately show ?thesis using r(1) by simp
qed

lemma FindFirstGreaterOrEqual_absent:
  assumes "sorted_keys p" and "0 \<le> GetSize p" and "\<not> has_key p key"
  shows "\<exists>r. FindFirstGreaterOrEqual key p = Some r \<and> 0 \<le> r \<and> r \<le> GetSize p
           \<and> (r < GetSize p \<longrightarrow> key_array p r \<noteq> key)
           \<and> (\<forall>i. 0 \<le> i \<and> i < r \<longrightarrow> key_array p i < key)
           \<and> (\<forall>i. r \<le> i \<and> i < GetSize p \<longrightarrow> key < key_array p i)"
proof -
  from FindFirstGreaterOrEqual_correct[OF assms(1,2), of key] obtain r where
    r: "FindFirstGreaterOrEqual key p = Some r" "0 \<le> r" "r \<le> GetSize p"
      "\<forall>j. 0 \<le> j \<and> j < r \<longrightarrow> key_array p j < key"
      "\<forall>j. r \<le> j \<and> j < GetSize p \<longrightarrow> key \<le> key_array p j"
    by blast
  have ne: "0 \<le> j \<Longrightarrow> j < GetSize p \<Longrightarrow> key_array p j \<noteq> key" for j
    using assms(3) by (auto simp: has_key_index key_index_def)
  have "\<forall>j. r \<le> j \<and> j < GetSize p \<longrightarrow> key < key_array p j"
    using r(2,5) ne by (metis order.strict_iff_order order_trans)
  then show ?thesis using r ne by auto
qed


lemma insert_descend_reaches:
  assumes "find_leaf t key pid = Some l"
  shows "\<forall>ws. ws \<noteq> [] \<and> last ws = pid \<longrightarrow>
         (\<exists>ws'. insert_descend t key ws = Some ws' \<and> ws' \<noteq> [] \<and> last ws' = l)"
  using assms
proof (induct rule: find_leaf.raw_induct[rotated 1, consumes 1])
  case (1 find_leaf' t key pid l)
  show ?case
  proof (intro allI impI, elim conjE)
    fix ws :: "page_id_t list"
    assume ws: "ws \<noteq> []" "last ws = pid"
    have b: "ws_back ws = Some pid" using ws by (simp add: ws_back_def)
    show "\<exists>ws'. insert_descend t key ws = Some ws' \<and> ws' \<noteq> [] \<and> last ws' = l"
    proof (cases "IsLeafPage (pages t pid)")
      case True
      then have "l = pid" using 1(2) by simp
      then show ?thesis
        using True b ws by (subst insert_descend.simps) simp
    next
      case False
      then obtain child where c: "FindPage key (pages t pid) = Some child"
        and f: "find_leaf' t key child = Some l"
        using 1(2) by (auto simp: bind_eq_Some_conv)
      define ws0 where "ws0 = (if GetSize (pages t pid) < GetMaxSize (pages t pid)
                    then (if length ws > 1 then [last ws] else ws) else ws)"
      have "ws0 @ [child] \<noteq> [] \<and> last (ws0 @ [child]) = child" by simp
      with 1(1)[OF f] obtain ws' where
        "insert_descend t key (ws0 @ [child]) = Some ws'" "ws' \<noteq> []" "last ws' = l" by blast
      then show ?thesis
        using False b c ws by (subst insert_descend.simps) (simp add: ws0_def Let_def)
    qed
  qed
qed

lemma remove_descend_reaches:
  assumes "find_leaf t key pid = Some l"
  shows "\<forall>ws. ws \<noteq> [] \<and> last ws = pid \<longrightarrow>
         (\<exists>ws'. remove_descend t key ws = Some ws' \<and> ws' \<noteq> [] \<and> last ws' = l)"
  using assms
proof (induct rule: find_leaf.raw_induct[rotated 1, consumes 1])
  case (1 find_leaf' t key pid l)
  show ?case
  proof (intro allI impI, elim conjE)
    fix ws :: "page_id_t list"
    assume ws: "ws \<noteq> []" "last ws = pid"
    have b: "ws_back ws = Some pid" using ws by (simp add: ws_back_def)
    show "\<exists>ws'. remove_descend t key ws = Some ws' \<and> ws' \<noteq> [] \<and> last ws' = l"
    proof (cases "IsLeafPage (pages t pid)")
      case True
      then have "l = pid" using 1(2) by simp
      then show ?thesis
        using True b ws by (subst remove_descend.simps) simp
    next
      case False
      then obtain child where c: "FindPage key (pages t pid) = Some child"
        and f: "find_leaf' t key child = Some l"
        using 1(2) by (auto simp: bind_eq_Some_conv)
      define ws0 where "ws0 = (if GetSize (pages t pid) > (internal_max_size t + 1) sdiv 2
                    then (if length ws > 1 then [last ws] else ws) else ws)"
      have "ws0 @ [child] \<noteq> [] \<and> last (ws0 @ [child]) = child" by simp
      with 1(1)[OF f] obtain ws' where
        "remove_descend t key (ws0 @ [child]) = Some ws'" "ws' \<noteq> []" "last ws' = l" by blast
      then show ?thesis
        using False b c ws by (subst remove_descend.simps) (simp add: ws0_def Let_def)
    qed
  qed
qed

lemma InsertIntoLeaf_duplicate:
  assumes "ws_back (write_set ctx) = Some leaf_id"
    and "sorted_keys (pages t leaf_id)" and "has_key (pages t leaf_id) key"
  shows "InsertIntoLeaf ctx leaf_page_id key value t = Some (False, t)"
proof -
  from assms(3) obtain i where i: "key_index (pages t leaf_id) key i"
    by (auto simp: has_key_index)
  have f: "FindFirstGreaterOrEqual key (pages t leaf_id) = Some i"
    by (rule FindFirstGreaterOrEqual_present[OF assms(2) i])
  have r: "0 \<le> i" "i < GetSize (pages t leaf_id)" "key_array (pages t leaf_id) i = key"
    using i by (auto simp: key_index_def)
  show ?thesis
    unfolding InsertIntoLeaf_def
    using assms(1) f r by (simp add: Leaf_KeyAt_in_range comparator_eq)
qed

lemma RemoveFromLeaf_absent:
  assumes "ws_back (write_set ctx) = Some leaf_id"
    and "sorted_keys (pages t leaf_id)" and "0 \<le> GetSize (pages t leaf_id)"
    and "\<not> has_key (pages t leaf_id) key"
  shows "RemoveFromLeaf ctx leaf_page_id key t = Some (False, t)"
proof -
  from FindFirstGreaterOrEqual_absent[OF assms(2,3,4)] obtain r where
    r: "FindFirstGreaterOrEqual key (pages t leaf_id) = Some r" "0 \<le> r"
       "r < GetSize (pages t leaf_id) \<longrightarrow> key_array (pages t leaf_id) r \<noteq> key"
    by blast
  show ?thesis
  proof (cases "r \<ge> GetSize (pages t leaf_id)")
    case True
    then show ?thesis
      unfolding RemoveFromLeaf_def using assms(1) r(1) by simp
  next
    case False
    then show ?thesis
      unfolding RemoveFromLeaf_def using assms(1) r
      by (simp add: Leaf_KeyAt_in_range comparator_eq)
  qed
qed


lemma GetValue_present:
  assumes "GetRootPageId t \<noteq> INVALID_PAGE_ID"
    and "find_leaf t key (GetRootPageId t) = Some leaf_id"
    and "sorted_keys (pages t leaf_id)" and "(key, v) \<in> set (leaf_all_data (pages t leaf_id))"
  shows "GetValue key result t = Some (True, result @ [v])"
proof -
  from assms(4) obtain i where i: "key_index (pages t leaf_id) key i" "rid_array (pages t leaf_id) i = v"
    by (auto simp: leaf_all_data_index)
  have f: "FindFirstGreaterOrEqual key (pages t leaf_id) = Some i"
    by (rule FindFirstGreaterOrEqual_present[OF assms(3) i(1)])
  have r: "0 \<le> i" "i < GetSize (pages t leaf_id)" "key_array (pages t leaf_id) i = key"
    using i by (auto simp: key_index_def)
  show ?thesis
    unfolding GetValue_def
    using assms(1,2) f r i(2)
    by (simp add: Leaf_KeyAt_in_range Leaf_ValueAt_in_range comparator_eq)
qed

lemma GetValue_absent:
  assumes "GetRootPageId t \<noteq> INVALID_PAGE_ID"
    and "find_leaf t key (GetRootPageId t) = Some leaf_id"
    and "sorted_keys (pages t leaf_id)" and "0 \<le> GetSize (pages t leaf_id)"
    and "\<not> has_key (pages t leaf_id) key"
  shows "GetValue key result t = Some (False, result)"
proof -
  from FindFirstGreaterOrEqual_absent[OF assms(3,4,5)] obtain r where
    r: "FindFirstGreaterOrEqual key (pages t leaf_id) = Some r" "0 \<le> r"
       "r \<le> GetSize (pages t leaf_id)"
       "r < GetSize (pages t leaf_id) \<longrightarrow> key_array (pages t leaf_id) r \<noteq> key"
    by blast
  show ?thesis
  proof (cases "r = GetSize (pages t leaf_id)")
    case True
    then show ?thesis
      unfolding GetValue_def using assms(1,2) r(1) by simp
  next
    case False
    then have "r < GetSize (pages t leaf_id)" using r(3) by simp
    then show ?thesis
      unfolding GetValue_def using assms(1,2) r False
      by (simp add: Leaf_KeyAt_in_range comparator_eq)
  qed
qed

lemma Insert_duplicate:
  assumes "GetRootPageId t \<noteq> INVALID_PAGE_ID"
    and "find_leaf t key (GetRootPageId t) = Some leaf_id"
    and "sorted_keys (pages t leaf_id)" and "has_key (pages t leaf_id) key"
  shows "Insert key value t = Some (False, t)"
proof (cases "GetSize (pages t leaf_id) \<ge> GetMaxSize (pages t leaf_id)")
  case False
  have "InsertIntoLeaf \<lparr> ctx_root_page_id = INVALID_PAGE_ID, write_set = [leaf_id] \<rparr>
          leaf_id key value t = Some (False, t)"
    by (rule InsertIntoLeaf_duplicate[OF _ assms(3,4)]) (simp add: ws_back_def)
  then show ?thesis
    unfolding Insert_def using assms(1,2) False by simp
next
  case True
  from insert_descend_reaches[OF assms(2)] obtain ws where
    ws: "insert_descend t key [GetRootPageId t] = Some ws" "ws \<noteq> []" "last ws = leaf_id"
    by auto
  have b: "ws_back ws = Some leaf_id" using ws by (simp add: ws_back_def)
  have "InsertIntoLeaf \<lparr> ctx_root_page_id = GetRootPageId t, write_set = ws \<rparr>
          leaf_id key value t = Some (False, t)"
    by (rule InsertIntoLeaf_duplicate[OF _ assms(3,4)]) (simp add: b)
  then have "Insert_write key value t = Some (False, t)"
    unfolding Insert_write_def using assms(1) ws(1) b by simp
  then show ?thesis
    unfolding Insert_def using assms(1,2) True by simp
qed

lemma Remove_absent:
  assumes "GetRootPageId t \<noteq> INVALID_PAGE_ID"
    and "find_leaf t key (GetRootPageId t) = Some leaf_id"
    and "sorted_keys (pages t leaf_id)" and "0 \<le> GetSize (pages t leaf_id)"
    and "\<not> has_key (pages t leaf_id) key"
  shows "BPlusTree_Remove key t = Some t"
proof (cases "GetSize (pages t leaf_id) \<le> (leaf_max_size t + 1) sdiv 2")
  case False
  have "RemoveFromLeaf \<lparr> ctx_root_page_id = GetRootPageId t, write_set = [leaf_id] \<rparr>
          leaf_id key t = Some (False, t)"
    by (rule RemoveFromLeaf_absent[OF _ assms(3,4,5)]) (simp add: ws_back_def)
  then show ?thesis
    unfolding BPlusTree_Remove_def using assms(1,2) False by simp
next
  case True
  from remove_descend_reaches[OF assms(2)] obtain ws where
    ws: "remove_descend t key [GetRootPageId t] = Some ws" "ws \<noteq> []" "last ws = leaf_id"
    by auto
  have b: "ws_back ws = Some leaf_id" using ws by (simp add: ws_back_def)
  have "RemoveFromLeaf \<lparr> ctx_root_page_id = GetRootPageId t, write_set = ws \<rparr>
          leaf_id key t = Some (False, t)"
    by (rule RemoveFromLeaf_absent[OF _ assms(3,4,5)]) (simp add: b)
  then have "Remove_write key t = Some t"
    unfolding Remove_write_def using assms(1) ws(1) b by simp
  then show ?thesis
    unfolding BPlusTree_Remove_def using assms(1,2) True by simp
qed


subsection \<open>Duplicate insert, absent remove and lookup in the leaf the descent reaches\<close>

text \<open>
  In an empty tree \<open>Remove\<close> changes nothing and \<open>GetValue\<close> finds nothing. In a
  non-empty tree whose descent for the key ends in a leaf with strictly ascending keys,
  \<open>Insert\<close> of a key the leaf holds returns false and the tree it was given, \<open>Remove\<close> of a
  key the leaf does not hold returns the tree it was given, and \<open>GetValue\<close> appends the value
  paired with the key and returns true when the leaf holds the key, and returns false with the
  result vector untouched when it does not. This speaks of the leaf the descent reaches only;
  whether that leaf is the one that holds a key of the tree is a matter of the tree's shape.
\<close>

theorem duplicate_insert_absent_remove_lookup:
  "(GetRootPageId t = INVALID_PAGE_ID \<longrightarrow>
      BPlusTree_Remove key t = Some t \<and> GetValue key result t = Some (False, result))
   \<and> (GetRootPageId t \<noteq> INVALID_PAGE_ID
        \<and> find_leaf t key (GetRootPageId t) = Some leaf_id
        \<and> sorted_keys (pages t leaf_id) \<and> 0 \<le> GetSize (pages t leaf_id) \<longrightarrow>
      (has_key (pages t leaf_id) key \<longrightarrow> Insert key value t = Some (False, t))
      \<and> (\<not> has_key (pages t leaf_id) key \<longrightarrow>
            BPlusTree_Remove key t = Some t \<and> GetValue key result t = Some (False, result))
      \<and> (\<forall>v. (key, v) \<in> set (leaf_all_data (pages t leaf_id)) \<longrightarrow>
            GetValue key result t = Some (True, result @ [v])))"
proof (intro conjI impI allI)
  assume "GetRootPageId t = INVALID_PAGE_ID"
  then show "BPlusTree_Remove key t = Some t" "GetValue key result t = Some (False, result)"
    by (simp_all add: BPlusTree_Remove_def GetValue_def)
next
  assume a: "GetRootPageId t \<noteq> INVALID_PAGE_ID
        \<and> find_leaf t key (GetRootPageId t) = Some leaf_id
        \<and> sorted_keys (pages t leaf_id) \<and> 0 \<le> GetSize (pages t leaf_id)"
  {
    assume "has_key (pages t leaf_id) key"
    with a show "Insert key value t = Some (False, t)"
      by (intro Insert_duplicate[where leaf_id = leaf_id]) simp_all
  }
  {
    assume "\<not> has_key (pages t leaf_id) key"
    with a show "BPlusTree_Remove key t = Some t" "GetValue key result t = Some (False, result)"
      by (auto intro: Remove_absent[where leaf_id = leaf_id] GetValue_absent[where leaf_id = leaf_id])
  }
  {
    fix v assume "(key, v) \<in> set (leaf_all_data (pages t leaf_id))"
    with a show "GetValue key result t = Some (True, result @ [v])"
      by (intro GetValue_present[where leaf_id = leaf_id]) simp_all
  }
qed


theorem duplicate_insert_absent_remove_lookup_witness:
  "GetRootPageId tree_of_three = 1
   \<and> find_leaf tree_of_three 3 1 = Some 1 \<and> find_leaf tree_of_three 7 1 = Some 1
   \<and> leaf_all_data (pages tree_of_three 1) = [(1, 10), (2, 20), (3, 30)]
   \<and> Insert 3 99 tree_of_three = Some (False, tree_of_three)
   \<and> GetValue 3 [] tree_of_three = Some (True, [30])
   \<and> BPlusTree_Remove 7 tree_of_three = Some tree_of_three
   \<and> GetValue 7 [] tree_of_three = Some (False, [])"
proof -
  have root: "GetRootPageId tree_of_three = 1" by code_simp
  have l3: "find_leaf tree_of_three 3 1 = Some 1" by code_simp
  have l7: "find_leaf tree_of_three 7 1 = Some 1" by code_simp
  have d1: "leaf_all_data (pages tree_of_three 1) = [(1, 10), (2, 20), (3, 30)]" by code_simp
  have s1: "sorted_keys (pages tree_of_three 1)" "0 \<le> GetSize (pages tree_of_three 1)"
    "has_key (pages tree_of_three 1) 3" "\<not> has_key (pages tree_of_three 1) 7"
    by code_simp+
  have inv: "(1::int) \<noteq> INVALID_PAGE_ID" by (simp add: INVALID_PAGE_ID_def)
  have m: "(3, 30) \<in> set (leaf_all_data (pages tree_of_three 1))" by (simp add: d1)
  from duplicate_insert_absent_remove_lookup[of tree_of_three 3 "[]" 1 99]
  have "Insert 3 99 tree_of_three = Some (False, tree_of_three)"
    and "GetValue 3 [] tree_of_three = Some (True, [30])"
    using root l3 s1 inv m by auto
  moreover
  from duplicate_insert_absent_remove_lookup[of tree_of_three 7 "[]" 1 0]
  have "BPlusTree_Remove 7 tree_of_three = Some tree_of_three"
    and "GetValue 7 [] tree_of_three = Some (False, [])"
    using root l7 s1 inv by auto
  ultimately show ?thesis using root l3 l7 d1 by simp
qed

subsection \<open>An insert that runs out of pages\<close>

text \<open>
  Claim C4 does not hold of every state the tree can reach. Leaf capacity 2, internal
  capacity 3, keys 1 and 2 inserted, so that the root leaf is full and \<open>GetValue\<close> finds
  key 2. \<open>Insert(0)\<close> splits the leaf: \<open>NewPage\<close> grants the right page, the old page is
  refilled with keys 0 and 1 and the new page with key 2; then \<open>CreateNewRoot\<close> gets
  \<open>INVALID_PAGE_ID\<close> from \<open>NewPage\<close> and returns false. The root is still the old leaf:
  \<open>Insert\<close> has returned false for a key that was not present and has changed the tree,
  \<open>GetValue\<close> no longer finds key 2, which was inserted and never removed, and finds
  key 0, whose insert was reported as failed.
\<close>

theorem failed_split_loses_key:
  "(case insert_all [1, 2] starved_tree of
      Some t \<Rightarrow>
        GetValue 0 [] t = Some (False, [])
        \<and> GetValue 2 [] t = Some (True, [20])
        \<and> (case Insert 0 5 t of
              Some (ok, t') \<Rightarrow>
                \<not> ok
                \<and> GetValue 2 [] t' = Some (False, [])
                \<and> GetValue 0 [] t' = Some (True, [5])
                \<and> GetRootPageId t' = GetRootPageId t
            | None \<Rightarrow> False)
    | None \<Rightarrow> False)"
  by code_simp

subsection \<open>Splitting a full leaf\<close>

text \<open>
  The loops of \<open>Insert_Set_old\<close> and \<open>Insert_Set_new\<close> are characterised by closed forms, so
  their recursion equations are taken out of the simplifier's hands.
\<close>

declare leaf_set_old_loop.simps [simp del] leaf_set_new_loop.simps [simp del]


















subsection \<open>The underflow threshold\<close>






end
